theory Spec2Isabelle
  imports Complex_Main
begin

section \<open>The training loop of \<open>modal_train.py\<close>\<close>

text \<open>
  The theory embeds the orchestration logic of \<open>train\<close> in \<open>src/modal_train.py\<close>:
  the output-directory adjustment, the distributed set-up, the choice between a fresh and a
  resumed run, the learning-rate schedule and the iteration protocol of the main loop.

  Conventions of the embedding.
  \<^item> Python integers are \<open>int\<close>. Python floats are idealised as \<open>real\<close>: comparison and
    the four operations are the exact ones, so rounding, infinities and NaN are outside the
    model. Where a property of the computed doubles can differ from the exact one (a
    bound that a last rounding may cross), the text of the property says so.
  \<^item> The neural network, the optimiser and the data files are opaque. What the loop reads
    from them (the two estimated losses of an evaluation, the loss of a micro-step) is given
    by the \<open>observations\<close> of the run, indexed by the iteration number.
  \<^item> What the loop does to the outside world is recorded as a list of \<open>event\<close>s, in program
    order. A run returns the events together with either the exception that stopped it or its
    final state, so the effects that precede an exception are kept.
  \<^item> Experiment tracking (\<open>wandb\<close>), the profiler, the throughput estimate and the prefetching
    of batches produce no event; they do not influence the control flow modelled here.
\<close>

subsection \<open>Configuration, exceptions, events\<close>

record TrainingConfig =
  out_dir :: string
  eval_interval :: int
  log_interval :: int
  eval_only :: bool
  always_save_checkpoint :: bool
  init_from :: string
  gradient_accumulation_steps :: int
  batch_size :: int
  block_size :: int
  learning_rate :: real
  max_iters :: int
  grad_clip :: real
  decay_lr :: bool
  warmup_iters :: int
  lr_decay_iters :: int
  min_lr :: real

text \<open>The defaults of the dataclass, for the fields above.\<close>

definition default_config :: TrainingConfig where
  "default_config =
     \<lparr>out_dir = ''/checkpoints/out'', eval_interval = 2000, log_interval = 1,
      eval_only = False, always_save_checkpoint = True, init_from = ''scratch'',
      gradient_accumulation_steps = 5 * 8, batch_size = 12, block_size = 1024,
      learning_rate = 6 / 10000, max_iters = 600000, grad_clip = 1,
      decay_lr = True, warmup_iters = 2000, lr_decay_iters = 600000,
      min_lr = 6 / 100000\<rparr>"

datatype error =
    ZeroDivisionError
  | AssertionError
  | KeyError
  | FileNotFoundError
  | UnboundLocalError

text \<open>The part of a checkpoint that the loop reads back; the tensors are opaque.\<close>

record checkpoint =
  ck_iter_num :: int
  ck_best_val_loss :: real

datatype event =
    MakeDirs string
  | LoadCheckpoint string
  | SetLR real
  | EstimateLoss int
  | SaveCheckpoint string checkpoint
  | GradSync bool
  | Backward int nat real
  | Unscale
  | ClipGradNorm real
  | OptimizerStep int
  | LogIter int real

type_synonym 'a result = "event list \<times> (error + 'a)"

subsection \<open>Paths\<close>

definition CHECKPOINT_DIR :: string where
  "CHECKPOINT_DIR = ''/checkpoints''"

definition startswith :: "string \<Rightarrow> string \<Rightarrow> bool" where
  "startswith s p = (take (length p) s = p)"

text \<open>\<open>s.rstrip('/')\<close>: every trailing slash is removed.\<close>

definition rstrip_slash :: "string \<Rightarrow> string" where
  "rstrip_slash s = rev (dropWhile (\<lambda>c. c = CHR ''/'') (rev s))"

text \<open>\<open>os.path.basename\<close> (posix): what follows the last slash.\<close>

definition basename :: "string \<Rightarrow> string" where
  "basename p = rev (takeWhile (\<lambda>c. c \<noteq> CHR ''/'') (rev p))"

text \<open>\<open>os.path.join\<close> (posix) of two parts.\<close>

definition path_join :: "string \<Rightarrow> string \<Rightarrow> string" where
  "path_join a b =
     (if startswith b ''/'' then b
      else if a = [] \<or> last a = CHR ''/'' then a @ b
      else a @ ''/'' @ b)"

definition adjust_out_dir :: "TrainingConfig \<Rightarrow> TrainingConfig" where
  "adjust_out_dir config =
     (if \<not> startswith (out_dir config) CHECKPOINT_DIR then
        let out_dir_name = basename (rstrip_slash (out_dir config))
        in config\<lparr>out_dir := path_join CHECKPOINT_DIR out_dir_name\<rparr>
      else config)"

definition ckpt_path :: "TrainingConfig \<Rightarrow> string" where
  "ckpt_path config = path_join (out_dir config) ''ckpt.pt''"

text \<open>
  The words "last path component", independently of \<open>basename\<close>: split the directory at
  every slash, drop the empty pieces, take the last piece left (the empty string when there
  is none).
\<close>

fun split_slash :: "string \<Rightarrow> string list" where
  "split_slash [] = [[]]"
| "split_slash (c # cs) =
     (if c = CHR ''/'' then [] # split_slash cs
      else (case split_slash cs of [] \<Rightarrow> [[c]] | w # ws \<Rightarrow> (c # w) # ws))"

definition path_components :: "string \<Rightarrow> string list" where
  "path_components s = filter (\<lambda>w. w \<noteq> []) (split_slash s)"

definition last_component :: "string \<Rightarrow> string" where
  "last_component s = (case path_components s of [] \<Rightarrow> [] | w # ws \<Rightarrow> last (w # ws))"

subsection \<open>Distributed set-up\<close>

text \<open>The three environment variables, already parsed; \<open>None\<close> when unset.\<close>

record environ =
  RANK :: "int option"
  LOCAL_RANK :: "int option"
  WORLD_SIZE :: "int option"

text \<open>
  The locals that the set-up leaves behind. \<open>accum_steps\<close> is the local variable
  \<open>gradient_accumulation_steps\<close> after the per-process scaling.
\<close>

record process =
  ddp :: bool
  ddp_world_size :: int
  master_process :: bool
  seed_offset :: int
  accum_steps :: int
  tokens_per_iter :: int

definition ddp_setup :: "TrainingConfig \<Rightarrow> environ \<Rightarrow> error + process" where
  "ddp_setup config env =
     (let rank = (case RANK env of None \<Rightarrow> - 1 | Some r \<Rightarrow> r) in
      if rank \<noteq> - 1 then
        (case LOCAL_RANK env of
           None \<Rightarrow> Inl KeyError
         | Some local_rank \<Rightarrow>
            (case WORLD_SIZE env of
               None \<Rightarrow> Inl KeyError
             | Some world_size \<Rightarrow>
                 if world_size = 0 then Inl ZeroDivisionError
                 else if gradient_accumulation_steps config mod world_size \<noteq> 0
                 then Inl AssertionError
                 else
                   let steps = gradient_accumulation_steps config div world_size in
                   Inr \<lparr>ddp = True, ddp_world_size = world_size,
                        master_process = (rank = 0), seed_offset = rank,
                        accum_steps = steps,
                        tokens_per_iter =
                          steps * world_size * batch_size config * block_size config\<rparr>))
      else
        Inr \<lparr>ddp = False, ddp_world_size = 1, master_process = True, seed_offset = 0,
             accum_steps = gradient_accumulation_steps config,
             tokens_per_iter =
               gradient_accumulation_steps config * 1 * batch_size config
                 * block_size config\<rparr>)"

subsection \<open>Fresh or resumed state\<close>

record loop_state =
  iter_num :: int
  local_iter_num :: int
  best_val_loss :: real
  loss :: "real option"

text \<open>
  \<open>iter_num\<close> and \<open>best_val_loss\<close> as the model initialisation leaves them. With an
  \<open>init_from\<close> that is none of the three modes no model is bound, and the first use of
  \<open>model\<close> raises.
\<close>

definition model_init ::
  "TrainingConfig \<Rightarrow> (string \<rightharpoonup> checkpoint) \<Rightarrow> (int \<times> real) result" where
  "model_init config files =
     (if init_from config = ''scratch'' then ([], Inr (0, 1000000000))
      else if init_from config = ''resume'' then
        (case files (ckpt_path config) of
           None \<Rightarrow> ([LoadCheckpoint (ckpt_path config)], Inl FileNotFoundError)
         | Some ck \<Rightarrow>
             ([LoadCheckpoint (ckpt_path config)],
              Inr (ck_iter_num ck, ck_best_val_loss ck)))
      else if startswith (init_from config) ''gpt2'' then ([], Inr (0, 1000000000))
      else ([], Inl UnboundLocalError))"

subsection \<open>Learning-rate schedule\<close>

definition get_lr :: "TrainingConfig \<Rightarrow> int \<Rightarrow> error + real" where
  "get_lr config it =
     (if it < warmup_iters config then
        (if warmup_iters config + 1 = 0 then Inl ZeroDivisionError
         else Inr (learning_rate config * real_of_int (it + 1)
                     / real_of_int (warmup_iters config + 1)))
      else if it > lr_decay_iters config then Inr (min_lr config)
      else if lr_decay_iters config - warmup_iters config = 0 then Inl ZeroDivisionError
      else
        let decay_ratio = real_of_int (it - warmup_iters config)
                            / real_of_int (lr_decay_iters config - warmup_iters config) in
        if \<not> (0 \<le> decay_ratio \<and> decay_ratio \<le> 1) then Inl AssertionError
        else
          let coeff = 0.5 * (1.0 + cos (pi * decay_ratio)) in
          Inr (min_lr config + coeff * (learning_rate config - min_lr config)))"

text \<open>The rate the loop applies at iteration \<open>it\<close>.\<close>

definition applied_lr :: "TrainingConfig \<Rightarrow> int \<Rightarrow> error + real" where
  "applied_lr config it = (if decay_lr config then get_lr config it else Inr (learning_rate config))"

subsection \<open>One iteration of the loop\<close>

record losses =
  loss_train :: real
  loss_val :: real

record observations =
  estimate_loss :: "int \<Rightarrow> losses"
  micro_loss :: "int \<Rightarrow> nat \<Rightarrow> real"

text \<open>The evaluation and checkpoint block.\<close>

definition eval_step ::
  "TrainingConfig \<Rightarrow> process \<Rightarrow> observations \<Rightarrow> loop_state \<Rightarrow> loop_state result" where
  "eval_step config pr orc st =
     (if eval_interval config = 0 then ([], Inl ZeroDivisionError)
      else if iter_num st mod eval_interval config = 0 \<and> master_process pr then
        let ls = estimate_loss orc (iter_num st) in
        if loss_val ls < best_val_loss st \<or> always_save_checkpoint config then
          let st' = st\<lparr>best_val_loss := loss_val ls\<rparr> in
          if iter_num st' > 0 then
            ([EstimateLoss (iter_num st),
              SaveCheckpoint (ckpt_path config)
                \<lparr>ck_iter_num = iter_num st', ck_best_val_loss = best_val_loss st'\<rparr>],
             Inr st')
          else ([EstimateLoss (iter_num st)], Inr st')
        else ([EstimateLoss (iter_num st)], Inr st)
      else ([], Inr st))"

text \<open>
  The micro-step loop over \<open>range(gradient_accumulation_steps)\<close>: the list of the
  remaining indices, the current binding of \<open>loss\<close>, and the events so far.
\<close>

fun micro_steps ::
  "process \<Rightarrow> observations \<Rightarrow> int \<Rightarrow> nat list \<Rightarrow> real option \<Rightarrow> event list \<times> real option" where
  "micro_steps pr orc it [] l = ([], l)"
| "micro_steps pr orc it (micro_step # rest) l =
     (let sync = (if ddp pr then [GradSync (int micro_step = accum_steps pr - 1)] else []);
          l' = micro_loss orc it micro_step / real_of_int (accum_steps pr);
          (evs, l'') = micro_steps pr orc it rest (Some l')
      in (sync @ [Backward it micro_step l'] @ evs, l''))"

definition py_range :: "int \<Rightarrow> nat list" where
  "py_range n = [0 ..< nat n]"

definition clip_step :: "TrainingConfig \<Rightarrow> event list" where
  "clip_step config =
     (if grad_clip config \<noteq> 0 then [Unscale, ClipGradNorm (grad_clip config)] else [])"

definition log_step ::
  "TrainingConfig \<Rightarrow> process \<Rightarrow> int \<Rightarrow> real option \<Rightarrow> unit result" where
  "log_step config pr it l =
     (if log_interval config = 0 then ([], Inl ZeroDivisionError)
      else if it mod log_interval config = 0 \<and> master_process pr then
        (case l of
           None \<Rightarrow> ([], Inl UnboundLocalError)
         | Some v \<Rightarrow> ([LogIter it (v * real_of_int (accum_steps pr))], Inr ()))
      else ([], Inr ()))"

text \<open>
  The body of \<open>while True\<close>. The flag returned with the state says that the body left the
  loop through one of its two \<open>break\<close>s.
\<close>

definition train_iteration ::
  "TrainingConfig \<Rightarrow> process \<Rightarrow> observations \<Rightarrow> loop_state \<Rightarrow> (loop_state \<times> bool) result" where
  "train_iteration config pr orc st =
     (case applied_lr config (iter_num st) of
        Inl e \<Rightarrow> ([], Inl e)
      | Inr lr \<Rightarrow>
         (case eval_step config pr orc st of
            (ev1, Inl e) \<Rightarrow> (SetLR lr # ev1, Inl e)
          | (ev1, Inr st1) \<Rightarrow>
              if iter_num st1 = 0 \<and> eval_only config then (SetLR lr # ev1, Inr (st1, True))
              else
                let (ev2, l) = micro_steps pr orc (iter_num st1)
                                 (py_range (accum_steps pr)) (loss st1);
                    ev3 = clip_step config;
                    ev4 = [OptimizerStep (iter_num st1)]
                in
                (case log_step config pr (iter_num st1) l of
                   (ev5, Inl e) \<Rightarrow> (SetLR lr # ev1 @ ev2 @ ev3 @ ev4 @ ev5, Inl e)
                 | (ev5, Inr _) \<Rightarrow>
                     let st2 = st1\<lparr>iter_num := iter_num st1 + 1,
                                   local_iter_num := local_iter_num st1 + 1,
                                   loss := l\<rparr>
                     in (SetLR lr # ev1 @ ev2 @ ev3 @ ev4 @ ev5,
                         Inr (st2, iter_num st2 > max_iters config)))))"

subsection \<open>The loop and the whole run\<close>

function train_loop ::
  "TrainingConfig \<Rightarrow> process \<Rightarrow> observations \<Rightarrow> loop_state \<Rightarrow> loop_state result" where
  "train_loop config pr orc st =
     (case train_iteration config pr orc st of
        (evs, Inl e) \<Rightarrow> (evs, Inl e)
      | (evs, Inr (st', stop)) \<Rightarrow>
          if stop then (evs, Inr st')
          else (case train_loop config pr orc st' of (evs', r) \<Rightarrow> (evs @ evs', r)))"
  by pat_completeness auto
termination
  apply (relation "measure (\<lambda>(config, pr, orc, st). nat (max_iters config + 1 - iter_num st))")
   apply simp
  apply (auto simp: train_iteration_def eval_step_def Let_def
          split: sum.splits prod.splits if_splits)
  done

declare train_loop.simps [simp del]

definition train ::
  "TrainingConfig \<Rightarrow> environ \<Rightarrow> (string \<rightharpoonup> checkpoint) \<Rightarrow> observations \<Rightarrow> loop_state result" where
  "train config0 env files orc =
     (let config = adjust_out_dir config0 in
      case ddp_setup config env of
        Inl e \<Rightarrow> ([], Inl e)
      | Inr pr \<Rightarrow>
          let ev0 = (if master_process pr then [MakeDirs (out_dir config)] else []) in
          (case model_init config files of
             (ev1, Inl e) \<Rightarrow> (ev0 @ ev1, Inl e)
           | (ev1, Inr (it, best)) \<Rightarrow>
               (case train_loop config pr orc
                       \<lparr>iter_num = it, local_iter_num = 0, best_val_loss = best,
                        loss = None\<rparr> of
                  (evs, r) \<Rightarrow> (ev0 @ ev1 @ evs, r))))"

subsection \<open>Reading a trace\<close>

fun is_save :: "event \<Rightarrow> bool" where
  "is_save (SaveCheckpoint p ck) = True"
| "is_save _ = False"

fun is_load :: "event \<Rightarrow> bool" where
  "is_load (LoadCheckpoint p) = True"
| "is_load _ = False"

fun is_eval :: "event \<Rightarrow> bool" where
  "is_eval (EstimateLoss i) = True"
| "is_eval _ = False"

fun is_backward :: "event \<Rightarrow> bool" where
  "is_backward (Backward i k v) = True"
| "is_backward _ = False"

fun is_clip :: "event \<Rightarrow> bool" where
  "is_clip (ClipGradNorm c) = True"
| "is_clip Unscale = True"
| "is_clip _ = False"

fun is_step :: "event \<Rightarrow> bool" where
  "is_step (OptimizerStep i) = True"
| "is_step _ = False"

fun is_log :: "event \<Rightarrow> bool" where
  "is_log (LogIter i v) = True"
| "is_log _ = False"

text \<open>The index of the first iteration of a trace that takes an optimizer step.\<close>

fun first_train :: "event list \<Rightarrow> int option" where
  "first_train [] = None"
| "first_train (OptimizerStep i # evs) = Some i"
| "first_train (e # evs) = first_train evs"

text \<open>The validation losses estimated along a trace, in the order of the evaluations.\<close>

fun eval_losses :: "observations \<Rightarrow> event list \<Rightarrow> real list" where
  "eval_losses orc [] = []"
| "eval_losses orc (EstimateLoss i # evs) =
     loss_val (estimate_loss orc i) # eval_losses orc evs"
| "eval_losses orc (e # evs) = eval_losses orc evs"

text \<open>
  The update of \<open>best_val_loss\<close> by one evaluation that estimates \<open>v\<close>, as the evaluation
  block performs it.
\<close>

definition update_best :: "TrainingConfig \<Rightarrow> real \<Rightarrow> real \<Rightarrow> real" where
  "update_best config best v = (if v < best \<or> always_save_checkpoint config then v else best)"

text \<open>The file a checkpoint event reads or writes.\<close>

fun checkpoint_file :: "event \<Rightarrow> string option" where
  "checkpoint_file (SaveCheckpoint p ck) = Some p"
| "checkpoint_file (LoadCheckpoint p) = Some p"
| "checkpoint_file _ = None"

subsection \<open>Sample runs\<close>

text \<open>
  Concrete values on which the theorems below are instantiated.
  \<^item> \<open>sample_observations\<close>: evaluations that estimate a validation loss of \<open>2.5\<close> at
    iteration \<open>0\<close> and \<open>2.4\<close> afterwards; micro-steps with loss \<open>4\<close> (the first of a window)
    and \<open>6\<close> (the others).
  \<^item> \<open>single_process\<close>: the locals of a run without \<open>RANK\<close>; \<open>worker_process\<close>: those of
    rank \<open>1\<close> of \<open>8\<close> under the default configuration; \<open>rank_env\<close> and \<open>no_env\<close>: the
    environments that lead to them.
  \<^item> \<open>resume_config\<close> with \<open>sample_files\<close>: a resume from a checkpoint taken at iteration
    \<open>5000\<close> with best validation loss \<open>1.23\<close>; \<open>moved_config\<close> with \<open>moved_files\<close>: a resume
    with a relative output directory.
  \<^item> \<open>short_config\<close>: a single-process run of two iterations that evaluates at each of
    them, with \<open>always_save_checkpoint\<close> off; \<open>rising_observations\<close>: evaluations that
    estimate \<open>2\<close> at iteration \<open>0\<close> and \<open>3\<close> afterwards.
  \<^item> \<open>initial_state\<close>: the loop state of a fresh run; \<open>sample_state\<close>: a state in the middle
    of the warmup.
\<close>

definition sample_observations :: observations where
  "sample_observations =
     \<lparr>estimate_loss = (\<lambda>i. if i = 0 then \<lparr>loss_train = 2.6, loss_val = 2.5\<rparr>
                            else \<lparr>loss_train = 2.5, loss_val = 2.4\<rparr>),
      micro_loss = (\<lambda>i k. if k = 0 then 4 else 6)\<rparr>"

definition single_process :: "TrainingConfig \<Rightarrow> process" where
  "single_process config =
     \<lparr>ddp = False, ddp_world_size = 1, master_process = True, seed_offset = 0,
      accum_steps = gradient_accumulation_steps config,
      tokens_per_iter = gradient_accumulation_steps config * 1 * batch_size config
                 * block_size config\<rparr>"

definition rank_env :: "int \<Rightarrow> int \<Rightarrow> environ" where
  "rank_env r w = \<lparr>RANK = Some r, LOCAL_RANK = Some r, WORLD_SIZE = Some w\<rparr>"

definition no_env :: environ where
  "no_env = \<lparr>RANK = None, LOCAL_RANK = None, WORLD_SIZE = None\<rparr>"

definition resume_config :: TrainingConfig where
  "resume_config = default_config\<lparr>init_from := ''resume''\<rparr>"

definition sample_files :: "string \<rightharpoonup> checkpoint" where
  "sample_files = [''/checkpoints/out/ckpt.pt'' \<mapsto>
                     \<lparr>ck_iter_num = 5000, ck_best_val_loss = 1.23\<rparr>]"

definition worker_process :: process where
  "worker_process = \<lparr>ddp = True, ddp_world_size = 8, master_process = False,
                      seed_offset = 1, accum_steps = 5, tokens_per_iter = 491520\<rparr>"

definition initial_state :: loop_state where
  "initial_state = \<lparr>iter_num = 0, local_iter_num = 0, best_val_loss = 1000000000,
                     loss = None\<rparr>"

definition moved_config :: TrainingConfig where
  "moved_config = default_config\<lparr>out_dir := ''out-shakespeare-char'',
                                   init_from := ''resume'', decay_lr := False\<rparr>"

definition moved_files :: "string \<rightharpoonup> checkpoint" where
  "moved_files = [''/checkpoints/out-shakespeare-char/ckpt.pt'' \<mapsto>
                    \<lparr>ck_iter_num = 2000, ck_best_val_loss = 2.5\<rparr>]"

definition short_config :: TrainingConfig where
  "short_config = default_config\<lparr>always_save_checkpoint := False, eval_interval := 1,
                      max_iters := 1, gradient_accumulation_steps := 1, decay_lr := False\<rparr>"

definition rising_observations :: observations where
  "rising_observations =
     \<lparr>estimate_loss = (\<lambda>i. if i = 0 then \<lparr>loss_train = 2, loss_val = 2\<rparr>
                            else \<lparr>loss_train = 3, loss_val = 3\<rparr>),
      micro_loss = (\<lambda>i k. 4)\<rparr>"

definition sample_state :: loop_state where
  "sample_state = \<lparr>iter_num = 5, local_iter_num = 5, best_val_loss = 3, loss = None\<rparr>"

section \<open>Properties\<close>

subsection \<open>Learning-rate schedule\<close>

lemma get_lr_warmup:
  assumes "0 \<le> it" "it < warmup_iters config"
  shows "get_lr config it =
    Inr (learning_rate config * real_of_int (it + 1) / real_of_int (warmup_iters config + 1))"
  using assms by (simp add: get_lr_def)

lemma decay_ratio_range:
  fixes it w d :: int
  assumes "w \<le> it" "it \<le> d" "w \<noteq> d"
  shows "0 \<le> real_of_int (it - w) / real_of_int (d - w)"
    and "real_of_int (it - w) / real_of_int (d - w) \<le> 1"
  using assms by (auto simp: divide_le_eq_1)

lemma get_lr_cosine:
  assumes "warmup_iters config \<le> it" "it \<le> lr_decay_iters config"
    "warmup_iters config \<noteq> lr_decay_iters config"
  shows "get_lr config it =
    Inr (min_lr config
         + 0.5 * (1.0 + cos (pi * (real_of_int (it - warmup_iters config)
                 / real_of_int (lr_decay_iters config - warmup_iters config))))
           * (learning_rate config - min_lr config))"
proof -
  have r: "0 \<le> real_of_int (it - warmup_iters config)
                 / real_of_int (lr_decay_iters config - warmup_iters config)"
     "real_of_int (it - warmup_iters config)
                 / real_of_int (lr_decay_iters config - warmup_iters config) \<le> 1"
    using decay_ratio_range[OF assms] by blast+
  have n: "\<not> it < warmup_iters config" "\<not> lr_decay_iters config < it"
    "lr_decay_iters config - warmup_iters config \<noteq> 0"
    using assms by auto
  show ?thesis
    unfolding get_lr_def Let_def using r n by simp
qed

lemma cosine_coeff_range:
  "0 \<le> 0.5 * (1.0 + cos (x::real))" "0.5 * (1.0 + cos (x::real)) \<le> 1"
  using cos_ge_minus_one[of x] cos_le_one[of x] by (simp; linarith)+

text \<open>
  C4, as stated, gives a rate for every iteration. With a warmup/decay window of width zero
  the iteration on the boundary divides by zero: no rate is returned.
\<close>

theorem get_lr_degenerate_window_counterexample:
  "get_lr (default_config\<lparr>warmup_iters := 2000, lr_decay_iters := 2000\<rparr>) 2000
     = Inl ZeroDivisionError"
  by (simp add: get_lr_def default_config_def)


lemma interpolation_bounds:
  fixes c m b :: real
  assumes "0 \<le> c" "c \<le> 1" "0 \<le> m" "m \<le> b"
  shows "0 \<le> m + c * (b - m)" and "m + c * (b - m) \<le> b"
proof -
  have d: "0 \<le> b - m" using assms(4) by simp
  have "c * (b - m) \<le> 1 * (b - m)" using assms(2) d by (rule mult_right_mono)
  then show "m + c * (b - m) \<le> b" by simp
  have "0 \<le> c * (b - m)" using assms(1) d by (rule mult_nonneg_nonneg)
  then show "0 \<le> m + c * (b - m)" using assms(3) by simp
qed

text \<open>
  In exact arithmetic, under \<open>0 \<le> min_lr \<le> learning_rate\<close>, \<open>0 < learning_rate\<close> and
  \<open>warmup_iters < lr_decay_iters\<close>, the three-segment formula stays between \<open>0\<close> and
  \<open>learning_rate\<close>, increases strictly during the warmup and is \<open>min_lr\<close> after the
  decay. This is a fact about the formula only. The program evaluates it in binary64, where
  each operation rounds: with \<open>learning_rate = 0.01\<close> and \<open>min_lr = 0.001\<close> the sum
  \<open>min_lr + 1.0 * (learning_rate - min_lr)\<close> at \<open>it = warmup_iters\<close> rounds to
  \<open>0.010000000000000002\<close>, above \<open>learning_rate\<close>. Bounds on the rates the program
  computes are therefore outside what the real-valued \<open>get_lr\<close> can state.
\<close>

lemma get_lr_exact_bounds:
  assumes "0 \<le> min_lr config" and "min_lr config \<le> learning_rate config"
    and "0 < learning_rate config" and "warmup_iters config < lr_decay_iters config"
  shows "(0 \<le> i \<longrightarrow>
            (\<exists>r. get_lr config i = Inr r \<and> 0 \<le> r \<and> r \<le> learning_rate config))
       \<and> (0 \<le> j \<and> j < k \<and> k < warmup_iters config \<longrightarrow>
            (\<exists>rj rk. get_lr config j = Inr rj \<and> get_lr config k = Inr rk \<and> rj < rk))
       \<and> (lr_decay_iters config < n \<longrightarrow> get_lr config n = Inr (min_lr config))"
proof (intro conjI impI)
  assume i0: "0 \<le> i"
  consider (warm) "i < warmup_iters config"
    | (floor) "warmup_iters config \<le> i" "lr_decay_iters config < i"
    | (cosine) "warmup_iters config \<le> i" "i \<le> lr_decay_iters config"
    by linarith
  then show "\<exists>r. get_lr config i = Inr r \<and> 0 \<le> r \<and> r \<le> learning_rate config"
  proof cases
    case warm
    have pos: "0 < real_of_int (warmup_iters config + 1)" using i0 warm by simp
    have "real_of_int (i + 1) \<le> real_of_int (warmup_iters config + 1)" using warm by simp
    then have "learning_rate config * real_of_int (i + 1)
                 \<le> learning_rate config * real_of_int (warmup_iters config + 1)"
      using assms(3) by (intro mult_left_mono) simp_all
    then have up: "learning_rate config * real_of_int (i + 1)
                 / real_of_int (warmup_iters config + 1) \<le> learning_rate config"
      using pos by (simp add: pos_divide_le_eq)
    have "0 \<le> learning_rate config * real_of_int (i + 1)" using assms(3) i0 by simp
    then have lo: "0 \<le> learning_rate config * real_of_int (i + 1)
                 / real_of_int (warmup_iters config + 1)"
      using pos by simp
    show ?thesis using get_lr_warmup[OF i0 warm] lo up by simp
  next
    case floor
    then have "get_lr config i = Inr (min_lr config)" by (simp add: get_lr_def)
    then show ?thesis using assms(1,2) by simp
  next
    case cosine
    let ?c = "0.5 * (1.0 + cos (pi * (real_of_int (i - warmup_iters config)
                 / real_of_int (lr_decay_iters config - warmup_iters config))))"
    have c: "0 \<le> ?c" "?c \<le> 1" by (rule cosine_coeff_range)+
    have "0 \<le> min_lr config + ?c * (learning_rate config - min_lr config)"
      "min_lr config + ?c * (learning_rate config - min_lr config) \<le> learning_rate config"
      using interpolation_bounds[OF c assms(1,2)] by blast+
    moreover have "get_lr config i = Inr (min_lr config + ?c * (learning_rate config - min_lr config))"
      using get_lr_cosine[OF cosine] assms(4) by simp
    ultimately show ?thesis by blast
  qed
next
  assume jk: "0 \<le> j \<and> j < k \<and> k < warmup_iters config"
  then have pos: "0 < real_of_int (warmup_iters config + 1)" by simp
  have "real_of_int (j + 1) < real_of_int (k + 1)" using jk by simp
  then have "learning_rate config * real_of_int (j + 1)
               < learning_rate config * real_of_int (k + 1)"
    using assms(3) by (simp only: mult_less_cancel_left_pos)
  then have "learning_rate config * real_of_int (j + 1) / real_of_int (warmup_iters config + 1)
               < learning_rate config * real_of_int (k + 1) / real_of_int (warmup_iters config + 1)"
    using pos by (simp only: divide_strict_right_mono)
  moreover have "get_lr config j = Inr (learning_rate config * real_of_int (j + 1)
                    / real_of_int (warmup_iters config + 1))"
    using jk by (intro get_lr_warmup) simp_all
  moreover have "get_lr config k = Inr (learning_rate config * real_of_int (k + 1)
                    / real_of_int (warmup_iters config + 1))"
    using jk by (intro get_lr_warmup) simp_all
  ultimately show "\<exists>rj rk. get_lr config j = Inr rj \<and> get_lr config k = Inr rk \<and> rj < rk"
    by blast
next
  assume "lr_decay_iters config < n"
  then show "get_lr config n = Inr (min_lr config)"
    using assms(4) by (simp add: get_lr_def)
qed

text \<open>
  C4 (amended): for an iteration \<open>it \<ge> 0\<close> the schedule is the three-segment function,
  the segments tried in this order: \<open>learning_rate * (it+1) / (warmup_iters+1)\<close> when
  \<open>it < warmup_iters\<close>; \<open>min_lr\<close> when \<open>it > lr_decay_iters\<close>; otherwise, when
  \<open>warmup_iters \<noteq> lr_decay_iters\<close>, the cosine value
  \<open>min_lr + 0.5 * (1 + cos (pi * ratio)) * (learning_rate - min_lr)\<close> with
  \<open>ratio = (it - warmup_iters) / (lr_decay_iters - warmup_iters)\<close> in \<open>[0, 1]\<close>, so the
  assertion on the ratio never fails. When \<open>it = warmup_iters = lr_decay_iters\<close> the
  division raises and no rate is returned. With \<open>decay_lr\<close> off the rate applied is the
  constant \<open>learning_rate\<close>; with it on, the rate applied is the schedule's.
\<close>

theorem get_lr_segments:
  assumes "0 \<le> it"
  shows "(it < warmup_iters config \<longrightarrow>
            get_lr config it =
              Inr (learning_rate config * real_of_int (it + 1)
                     / real_of_int (warmup_iters config + 1)))
       \<and> (warmup_iters config \<le> it \<and> lr_decay_iters config < it \<longrightarrow>
            get_lr config it = Inr (min_lr config))
       \<and> (warmup_iters config \<le> it \<and> it \<le> lr_decay_iters config
            \<and> warmup_iters config \<noteq> lr_decay_iters config \<longrightarrow>
            0 \<le> real_of_int (it - warmup_iters config)
                   / real_of_int (lr_decay_iters config - warmup_iters config)
            \<and> real_of_int (it - warmup_iters config)
                   / real_of_int (lr_decay_iters config - warmup_iters config) \<le> 1
            \<and> get_lr config it =
                Inr (min_lr config
                     + 0.5 * (1 + cos (pi * (real_of_int (it - warmup_iters config)
                           / real_of_int (lr_decay_iters config - warmup_iters config))))
                       * (learning_rate config - min_lr config)))
       \<and> (it = warmup_iters config \<and> it = lr_decay_iters config \<longrightarrow>
            get_lr config it = Inl ZeroDivisionError)
       \<and> (\<not> decay_lr config \<longrightarrow> applied_lr config it = Inr (learning_rate config))
       \<and> (decay_lr config \<longrightarrow> applied_lr config it = get_lr config it)"
proof (intro conjI impI)
  assume "it < warmup_iters config"
  then show "get_lr config it =
      Inr (learning_rate config * real_of_int (it + 1) / real_of_int (warmup_iters config + 1))"
    using assms by (rule get_lr_warmup[rotated])
next
  assume "warmup_iters config \<le> it \<and> lr_decay_iters config < it"
  then show "get_lr config it = Inr (min_lr config)"
    by (simp add: get_lr_def)
next
  assume c: "warmup_iters config \<le> it \<and> it \<le> lr_decay_iters config
            \<and> warmup_iters config \<noteq> lr_decay_iters config"
  then show "0 \<le> real_of_int (it - warmup_iters config)
                   / real_of_int (lr_decay_iters config - warmup_iters config)"
    by (intro decay_ratio_range) simp_all
  from c show "real_of_int (it - warmup_iters config)
                   / real_of_int (lr_decay_iters config - warmup_iters config) \<le> 1"
    by (intro decay_ratio_range) simp_all
  from c show "get_lr config it =
                Inr (min_lr config
                     + 0.5 * (1 + cos (pi * (real_of_int (it - warmup_iters config)
                           / real_of_int (lr_decay_iters config - warmup_iters config))))
                       * (learning_rate config - min_lr config))"
    using get_lr_cosine[of config it] by simp
next
  assume "it = warmup_iters config \<and> it = lr_decay_iters config"
  then show "get_lr config it = Inl ZeroDivisionError"
    by (simp add: get_lr_def)
next
  assume "\<not> decay_lr config"
  then show "applied_lr config it = Inr (learning_rate config)"
    by (simp add: applied_lr_def)
next
  assume "decay_lr config"
  then show "applied_lr config it = get_lr config it"
    by (simp add: applied_lr_def)
qed

theorem get_lr_segments_witness:
  "get_lr default_config 0 = Inr (6 / 10000 * 1 / 2001)
   \<and> get_lr default_config 600001 = Inr (6 / 100000)
   \<and> get_lr default_config 2000 = Inr (6 / 10000)
   \<and> get_lr default_config 600000 = Inr (6 / 100000)
   \<and> get_lr (default_config\<lparr>warmup_iters := 100, lr_decay_iters := 100\<rparr>) 100
        = Inl ZeroDivisionError
   \<and> applied_lr (default_config\<lparr>decay_lr := False\<rparr>) 7 = Inr (6 / 10000)
   \<and> applied_lr default_config 600001 = get_lr default_config 600001"
  using get_lr_segments[of 0 default_config]
    get_lr_segments[of 600001 default_config]
    get_lr_segments[of 2000 default_config]
    get_lr_segments[of 600000 default_config]
    get_lr_segments[of 100 "default_config\<lparr>warmup_iters := 100, lr_decay_iters := 100\<rparr>"]
    get_lr_segments[of 7 "default_config\<lparr>decay_lr := False\<rparr>"]
  by (simp add: default_config_def)

subsection \<open>The evaluation block and the parts of an iteration\<close>

lemma eval_step_cases:
  "eval_step config pr orc st =
     (if eval_interval config = 0 then ([], Inl ZeroDivisionError)
      else if iter_num st mod eval_interval config = 0 \<and> master_process pr then
        (if loss_val (estimate_loss orc (iter_num st)) < best_val_loss st
              \<or> always_save_checkpoint config
         then ((if 0 < iter_num st
                then [EstimateLoss (iter_num st),
                      SaveCheckpoint (ckpt_path config)
                        \<lparr>ck_iter_num = iter_num st,
                         ck_best_val_loss = loss_val (estimate_loss orc (iter_num st))\<rparr>]
                else [EstimateLoss (iter_num st)]),
               Inr (st\<lparr>best_val_loss := loss_val (estimate_loss orc (iter_num st))\<rparr>))
         else ([EstimateLoss (iter_num st)], Inr st))
      else ([], Inr st))"
  by (simp add: eval_step_def Let_def)

lemma eval_step_keeps:
  assumes "eval_step config pr orc st = (evs, Inr st1)"
  shows "iter_num st1 = iter_num st" and "loss st1 = loss st"
    and "local_iter_num st1 = local_iter_num st"
  using assms by (auto simp: eval_step_cases split: if_splits)

lemma eval_step_total:
  assumes "eval_interval config \<noteq> 0"
  shows "\<exists>evs st1. eval_step config pr orc st = (evs, Inr st1)"
  using assms by (simp add: eval_step_cases)

lemma eval_step_events:
  assumes "e \<in> set (fst (eval_step config pr orc st))"
  shows "e = EstimateLoss (iter_num st)
       \<or> e = SaveCheckpoint (ckpt_path config)
              \<lparr>ck_iter_num = iter_num st,
               ck_best_val_loss = loss_val (estimate_loss orc (iter_num st))\<rparr>"
  using assms by (auto simp: eval_step_cases split: if_splits)

lemma micro_steps_events:
  assumes "e \<in> set (fst (micro_steps pr orc it ks l))"
  shows "(\<exists>b. e = GradSync b)
       \<or> (\<exists>k \<in> set ks. e = Backward it k (micro_loss orc it k / real_of_int (accum_steps pr)))"
  using assms
  by (induction ks arbitrary: l) (auto simp: Let_def case_prod_beta split: if_splits)

lemma micro_steps_backward:
  "filter is_backward (fst (micro_steps pr orc it ks l))
     = map (\<lambda>k. Backward it k (micro_loss orc it k / real_of_int (accum_steps pr))) ks"
  by (induction ks arbitrary: l) (auto simp: Let_def case_prod_beta)

lemma micro_steps_loss:
  "snd (micro_steps pr orc it ks l)
     = (if ks = [] then l
        else Some (micro_loss orc it (last ks) / real_of_int (accum_steps pr)))"
  by (induction ks arbitrary: l) (auto simp: Let_def case_prod_beta)

lemma log_step_cases:
  "log_step config pr it l =
     (if log_interval config = 0 then ([], Inl ZeroDivisionError)
      else if it mod log_interval config = 0 \<and> master_process pr then
        (case l of None \<Rightarrow> ([], Inl UnboundLocalError)
         | Some v \<Rightarrow> ([LogIter it (v * real_of_int (accum_steps pr))], Inr ()))
      else ([], Inr ()))"
  by (simp add: log_step_def)

lemma log_step_events:
  assumes "e \<in> set (fst (log_step config pr it l))"
  shows "\<exists>v. l = Some v \<and> e = LogIter it (v * real_of_int (accum_steps pr))"
  using assms by (auto simp: log_step_cases split: if_splits option.splits)

lemma clip_step_events:
  assumes "e \<in> set (clip_step config)"
  shows "e = Unscale \<or> e = ClipGradNorm (grad_clip config)"
  using assms by (auto simp: clip_step_def split: if_splits)

text \<open>The events of an iteration that gets past the evaluate-only exit.\<close>

lemma train_iteration_trained:
  assumes "applied_lr config (iter_num st) = Inr lr"
    and "eval_interval config \<noteq> 0"
    and "\<not> (iter_num st = 0 \<and> eval_only config)"
  shows "fst (train_iteration config pr orc st) =
           SetLR lr # fst (eval_step config pr orc st)
           @ fst (micro_steps pr orc (iter_num st) (py_range (accum_steps pr)) (loss st))
           @ clip_step config @ [OptimizerStep (iter_num st)]
           @ fst (log_step config pr (iter_num st)
                (snd (micro_steps pr orc (iter_num st) (py_range (accum_steps pr)) (loss st))))"
proof -
  obtain ev1 st1 where e: "eval_step config pr orc st = (ev1, Inr st1)"
    using eval_step_total[OF assms(2)] by blast
  note k = eval_step_keeps[OF e]
  show ?thesis
    using assms(1,3) e k
    by (simp add: train_iteration_def Let_def split: prod.splits sum.splits)
qed

lemma train_iteration_eval_only:
  assumes "applied_lr config (iter_num st) = Inr lr"
    and "eval_interval config \<noteq> 0"
    and "iter_num st = 0" and "eval_only config"
  shows "\<exists>st1. train_iteration config pr orc st
           = (SetLR lr # fst (eval_step config pr orc st), Inr (st1, True))
         \<and> snd (eval_step config pr orc st) = Inr st1"
proof -
  obtain ev1 st1 where e: "eval_step config pr orc st = (ev1, Inr st1)"
    using eval_step_total[OF assms(2)] by blast
  note k = eval_step_keeps[OF e]
  show ?thesis
    using assms(1,3,4) e k
    by (simp add: train_iteration_def Let_def split: prod.splits sum.splits)
qed

subsection \<open>Checkpoint writes\<close>

lemma iteration_saves:
  assumes "applied_lr config (iter_num st) = Inr lr"
  shows "filter is_save (fst (train_iteration config pr orc st))
           = filter is_save (fst (eval_step config pr orc st))"
proof (cases "eval_interval config = 0")
  case True
  then show ?thesis
    using assms by (simp add: train_iteration_def eval_step_cases)
next
  case e: False
  have m: "filter is_save (fst (micro_steps pr orc it ks l)) = []" for it ks l
    by (auto simp: filter_empty_conv dest!: micro_steps_events)
  have c: "filter is_save (clip_step config) = []"
    by (auto simp: filter_empty_conv dest!: clip_step_events)
  have g: "filter is_save (fst (log_step config pr it l)) = []" for it l
    by (auto simp: filter_empty_conv dest!: log_step_events)
  show ?thesis
  proof (cases "iter_num st = 0 \<and> eval_only config")
    case True
    then show ?thesis
      using train_iteration_eval_only[OF assms e, of pr orc] by auto
  next
    case False
    show ?thesis
      by (simp add: train_iteration_trained[OF assms e False] m c g)
  qed
qed

text \<open>
  C2: the evaluation block writes a checkpoint if and only if the process is the master
  process, the iteration number is a multiple of \<open>eval_interval\<close> and greater than \<open>0\<close>,
  and the validation loss just estimated is below \<open>best_val_loss\<close> or
  \<open>always_save_checkpoint\<close> is set. No other part of an iteration writes one, so the same
  holds of the whole iteration once its learning rate is computed.
\<close>

theorem checkpoint_written_iff:
  "(list_ex is_save (fst (eval_step config pr orc st)) \<longleftrightarrow>
      master_process pr \<and> eval_interval config dvd iter_num st \<and> 0 < iter_num st
      \<and> (loss_val (estimate_loss orc (iter_num st)) < best_val_loss st
           \<or> always_save_checkpoint config))
   \<and> (applied_lr config (iter_num st) = Inr lr \<longrightarrow>
       (list_ex is_save (fst (train_iteration config pr orc st)) \<longleftrightarrow>
          master_process pr \<and> eval_interval config dvd iter_num st \<and> 0 < iter_num st
          \<and> (loss_val (estimate_loss orc (iter_num st)) < best_val_loss st
               \<or> always_save_checkpoint config)))"
proof -
  have a: "list_ex is_save (fst (eval_step config pr orc st)) \<longleftrightarrow>
      master_process pr \<and> eval_interval config dvd iter_num st \<and> 0 < iter_num st
      \<and> (loss_val (estimate_loss orc (iter_num st)) < best_val_loss st
           \<or> always_save_checkpoint config)"
  proof (cases "eval_interval config = 0")
    case True
    then show ?thesis by (auto simp: eval_step_cases)
  next
    case False
    then show ?thesis by (auto simp: eval_step_cases mod_eq_0_iff_dvd)
  qed
  have f: "list_ex is_save evs \<longleftrightarrow> filter is_save evs \<noteq> []" for evs
    by (simp add: list_ex_iff filter_empty_conv)
  show ?thesis
    using a iteration_saves[of config st lr pr orc] by (simp add: f)
qed

theorem checkpoint_written_iff_witness:
  "\<not> list_ex is_save (fst (eval_step (default_config\<lparr>always_save_checkpoint := False\<rparr>)
        (single_process default_config) sample_observations
        \<lparr>iter_num = 0, local_iter_num = 0, best_val_loss = 1000000000, loss = None\<rparr>))
   \<and> list_ex is_save (fst (eval_step (default_config\<lparr>always_save_checkpoint := False\<rparr>)
        (single_process default_config) sample_observations
        \<lparr>iter_num = 2000, local_iter_num = 2000, best_val_loss = 2.5, loss = Some 1\<rparr>))
   \<and> list_ex is_save (fst (train_iteration (default_config\<lparr>always_save_checkpoint := False\<rparr>)
        (single_process default_config) sample_observations
        \<lparr>iter_num = 2000, local_iter_num = 2000, best_val_loss = 2.5, loss = Some 1\<rparr>))"
proof -
  have lr: "applied_lr (default_config\<lparr>always_save_checkpoint := False\<rparr>) 2000
              = Inr (6 / 10000)"
    by (simp add: applied_lr_def get_lr_def default_config_def)
  show ?thesis
    using
      checkpoint_written_iff[of "default_config\<lparr>always_save_checkpoint := False\<rparr>"
        "single_process default_config" sample_observations
        "\<lparr>iter_num = 0, local_iter_num = 0, best_val_loss = 1000000000, loss = None\<rparr>"]
      checkpoint_written_iff[of "default_config\<lparr>always_save_checkpoint := False\<rparr>"
        "single_process default_config" sample_observations
        "\<lparr>iter_num = 2000, local_iter_num = 2000, best_val_loss = 2.5, loss = Some 1\<rparr>"
        "6 / 10000"]
      lr
    by (simp add: default_config_def single_process_def sample_observations_def)
qed

subsection \<open>Gradient clipping\<close>

lemma iteration_clips:
  assumes "applied_lr config (iter_num st) = Inr lr"
    and "eval_interval config \<noteq> 0"
    and "\<not> (iter_num st = 0 \<and> eval_only config)"
  shows "filter is_clip (fst (train_iteration config pr orc st)) = clip_step config"
proof -
  have e: "filter is_clip (fst (eval_step config pr orc st)) = []"
    by (auto simp: filter_empty_conv dest!: eval_step_events)
  have m: "filter is_clip (fst (micro_steps pr orc it ks l)) = []" for it ks l
    by (auto simp: filter_empty_conv dest!: micro_steps_events)
  have c: "filter is_clip (clip_step config) = clip_step config"
    by (simp add: clip_step_def)
  have g: "filter is_clip (fst (log_step config pr it l)) = []" for it l
    by (auto simp: filter_empty_conv dest!: log_step_events)
  show ?thesis
    by (simp add: train_iteration_trained[OF assms] e m c g)
qed

text \<open>
  C8 (amended): an iteration that trains unscales and clips the gradients if and only if
  \<open>grad_clip\<close> is different from zero, and then once, with \<open>grad_clip\<close> as the threshold;
  with \<open>grad_clip = 0\<close> the iteration has no clip step.
\<close>

theorem clip_iff_nonzero:
  assumes "applied_lr config (iter_num st) = Inr lr"
    and "eval_interval config \<noteq> 0"
    and "\<not> (iter_num st = 0 \<and> eval_only config)"
  shows "(list_ex is_clip (fst (train_iteration config pr orc st)) \<longleftrightarrow> grad_clip config \<noteq> 0)
       \<and> filter is_clip (fst (train_iteration config pr orc st))
           = (if grad_clip config \<noteq> 0 then [Unscale, ClipGradNorm (grad_clip config)] else [])"
proof -
  have f: "list_ex is_clip evs \<longleftrightarrow> filter is_clip evs \<noteq> []" for evs
    by (simp add: list_ex_iff filter_empty_conv)
  show ?thesis
    by (simp add: f iteration_clips[OF assms] clip_step_def)
qed

lemma applied_lr_5:
  "applied_lr (default_config\<lparr>grad_clip := c\<rparr>) 5 = Inr (6 / 10000 * 6 / 2001)"
   by (simp add: applied_lr_def get_lr_def default_config_def)

theorem clip_iff_nonzero_witness:
  "list_ex is_clip (fst (train_iteration (default_config\<lparr>grad_clip := - 1\<rparr>)
        (single_process default_config) sample_observations sample_state))
   \<and> filter is_clip (fst (train_iteration (default_config\<lparr>grad_clip := 0\<rparr>)
        (single_process default_config) sample_observations sample_state)) = []
   \<and> filter is_clip (fst (train_iteration default_config
        (single_process default_config) sample_observations sample_state)) = [Unscale, ClipGradNorm 1]"
proof -
  have h: "eval_interval (default_config\<lparr>grad_clip := c\<rparr>) \<noteq> 0"
     "\<not> (iter_num sample_state = 0 \<and> eval_only (default_config\<lparr>grad_clip := c\<rparr>))" for c
    by (simp_all add: default_config_def sample_state_def)
  have d: "default_config\<lparr>grad_clip := 1\<rparr> = default_config"
    by (simp add: default_config_def)
  show ?thesis
    using clip_iff_nonzero[OF _ h, of "- 1" "6 / 10000 * 6 / 2001" "single_process default_config" sample_observations]
      clip_iff_nonzero[OF _ h, of 0 "6 / 10000 * 6 / 2001" "single_process default_config" sample_observations]
      clip_iff_nonzero[OF _ h, of 1 "6 / 10000 * 6 / 2001" "single_process default_config" sample_observations]
      applied_lr_5[of "-1"] applied_lr_5[of 0] applied_lr_5[of 1]
    by (simp add: sample_state_def d default_config_def)
qed

text \<open>
  C8, as stated, ties clipping to a threshold greater than zero. The test in the code is
  \<open>grad_clip != 0.0\<close>: a negative threshold is not greater than zero and the clip step runs.
\<close>

theorem clip_negative_threshold_counterexample:
  "\<not> 0 < grad_clip (default_config\<lparr>grad_clip := - 1\<rparr>)
   \<and> clip_step (default_config\<lparr>grad_clip := - 1\<rparr>) = [Unscale, ClipGradNorm (- 1)]"
  by (simp add: clip_step_def)

subsection \<open>Gradient accumulation\<close>

lemma py_range_last:
  assumes "0 < n"
  shows "py_range n \<noteq> []" and "last (py_range n) = nat n - 1"
  using assms by (simp_all add: py_range_def )

lemma iteration_backwards:
  assumes "applied_lr config (iter_num st) = Inr lr"
    and "eval_interval config \<noteq> 0"
    and "\<not> (iter_num st = 0 \<and> eval_only config)"
  shows "filter is_backward (fst (train_iteration config pr orc st))
           = map (\<lambda>k. Backward (iter_num st) k
                        (micro_loss orc (iter_num st) k / real_of_int (accum_steps pr)))
               (py_range (accum_steps pr))"
proof -
  have e: "filter is_backward (fst (eval_step config pr orc st)) = []"
    by (auto simp: filter_empty_conv dest!: eval_step_events)
  have c: "filter is_backward (clip_step config) = []"
    by (auto simp: filter_empty_conv dest!: clip_step_events)
  have g: "filter is_backward (fst (log_step config pr it l)) = []" for it l
    by (auto simp: filter_empty_conv dest!: log_step_events)
  show ?thesis
    by (simp add: train_iteration_trained[OF assms] e c g micro_steps_backward)
qed

lemma iteration_logs:
  assumes "applied_lr config (iter_num st) = Inr lr"
    and "eval_interval config \<noteq> 0"
    and "\<not> (iter_num st = 0 \<and> eval_only config)"
  shows "filter is_log (fst (train_iteration config pr orc st))
           = fst (log_step config pr (iter_num st)
                (snd (micro_steps pr orc (iter_num st) (py_range (accum_steps pr)) (loss st))))"
proof -
  have e: "filter is_log (fst (eval_step config pr orc st)) = []"
    by (auto simp: filter_empty_conv dest!: eval_step_events)
  have m: "filter is_log (fst (micro_steps pr orc it ks l)) = []" for it ks l
    by (auto simp: filter_empty_conv dest!: micro_steps_events)
  have c: "filter is_log (clip_step config) = []"
    by (auto simp: filter_empty_conv dest!: clip_step_events)
  have g: "filter is_log (fst (log_step config pr it l)) = fst (log_step config pr it l)"
    for it l
    by (auto simp: filter_id_conv dest!: log_step_events)
  show ?thesis
    by (simp add: train_iteration_trained[OF assms] e m c g)
qed

text \<open>
  C7: in an iteration that trains with a positive accumulation-step count, micro-step \<open>k\<close>
  hands \<open>micro_loss k / accum_steps\<close> to the backward pass, for every \<open>k\<close> of the window in
  order; when the iteration is logged (master process, iteration on the logging cadence) the
  value logged is the divided loss of the last micro-step multiplied by \<open>accum_steps\<close>, which
  is that micro-step's own loss and neither the sum nor the mean over the window.
\<close>

theorem logged_loss_is_last_micro_step:
  assumes "0 < accum_steps pr"
    and "applied_lr config (iter_num st) = Inr lr"
    and "eval_interval config \<noteq> 0"
    and "\<not> (iter_num st = 0 \<and> eval_only config)"
  shows "filter is_backward (fst (train_iteration config pr orc st))
           = map (\<lambda>k. Backward (iter_num st) k
                        (micro_loss orc (iter_num st) k / real_of_int (accum_steps pr)))
               [0 ..< nat (accum_steps pr)]
       \<and> filter is_log (fst (train_iteration config pr orc st))
           = (if log_interval config \<noteq> 0 \<and> iter_num st mod log_interval config = 0
                 \<and> master_process pr
              then [LogIter (iter_num st)
                      (micro_loss orc (iter_num st) (nat (accum_steps pr) - 1)
                         / real_of_int (accum_steps pr) * real_of_int (accum_steps pr))]
              else [])
       \<and> micro_loss orc (iter_num st) (nat (accum_steps pr) - 1)
           / real_of_int (accum_steps pr) * real_of_int (accum_steps pr)
           = micro_loss orc (iter_num st) (nat (accum_steps pr) - 1)"
proof (intro conjI)
  show "filter is_backward (fst (train_iteration config pr orc st))
           = map (\<lambda>k. Backward (iter_num st) k
                        (micro_loss orc (iter_num st) k / real_of_int (accum_steps pr)))
               [0 ..< nat (accum_steps pr)]"
    using iteration_backwards[OF assms(2-4)] by (simp add: py_range_def)
  have l: "snd (micro_steps pr orc (iter_num st) (py_range (accum_steps pr)) (loss st))
             = Some (micro_loss orc (iter_num st) (nat (accum_steps pr) - 1)
                       / real_of_int (accum_steps pr))"
    using py_range_last[OF assms(1)] by (simp add: micro_steps_loss)
  show "filter is_log (fst (train_iteration config pr orc st))
           = (if log_interval config \<noteq> 0 \<and> iter_num st mod log_interval config = 0
                 \<and> master_process pr
              then [LogIter (iter_num st)
                      (micro_loss orc (iter_num st) (nat (accum_steps pr) - 1)
                         / real_of_int (accum_steps pr) * real_of_int (accum_steps pr))]
              else [])"
    by (simp add: iteration_logs[OF assms(2-4)] l log_step_cases)
  show "micro_loss orc (iter_num st) (nat (accum_steps pr) - 1)
           / real_of_int (accum_steps pr) * real_of_int (accum_steps pr)
           = micro_loss orc (iter_num st) (nat (accum_steps pr) - 1)"
    using assms(1) by simp
qed

theorem logged_loss_is_last_micro_step_witness:
  "filter is_backward (fst (train_iteration
        (default_config\<lparr>gradient_accumulation_steps := 2\<rparr>)
        (single_process (default_config\<lparr>gradient_accumulation_steps := 2\<rparr>)) sample_observations sample_state))
     = [Backward 5 0 2, Backward 5 1 3]
   \<and> filter is_log (fst (train_iteration
        (default_config\<lparr>gradient_accumulation_steps := 2\<rparr>)
        (single_process (default_config\<lparr>gradient_accumulation_steps := 2\<rparr>)) sample_observations sample_state))
     = [LogIter 5 6]"
proof -
  let ?c = "default_config\<lparr>gradient_accumulation_steps := 2\<rparr>"
  have h: "0 < accum_steps (single_process ?c)"
    "applied_lr ?c (iter_num sample_state) = Inr (6 / 10000 * 6 / 2001)"
    "eval_interval ?c \<noteq> 0" "\<not> (iter_num sample_state = 0 \<and> eval_only ?c)"
    by (simp_all add: default_config_def single_process_def sample_state_def applied_lr_def get_lr_def)
  have u: "[0 ..< 2] = [0, Suc 0]"
    by (simp add: upt_rec numeral_2_eq_2)
  show ?thesis
    using logged_loss_is_last_micro_step[OF h, of sample_observations]
    by (simp add: default_config_def single_process_def sample_state_def sample_observations_def u)
qed

subsection \<open>Distributed set-up\<close>

text \<open>
  C6: in a distributed run of world size \<open>W\<close> the set-up fails unless \<open>W\<close> divides the
  configured \<open>gradient_accumulation_steps\<close> (with a failed assertion, or with a division by
  zero when \<open>W = 0\<close>); when it succeeds, each process uses the configured count divided by
  \<open>W\<close>, and per-process steps times \<open>W\<close> times \<open>batch_size\<close> times \<open>block_size\<close> is the
  configured count times \<open>batch_size\<close> times \<open>block_size\<close>, which is also the value of a run
  that is not distributed.
\<close>

theorem ddp_accumulation_scaling:
  "(RANK env = Some r \<and> r \<noteq> - 1 \<and> LOCAL_RANK env = Some l \<and> WORLD_SIZE env = Some W \<longrightarrow>
      (W = 0 \<longrightarrow> ddp_setup config env = Inl ZeroDivisionError)
    \<and> (W \<noteq> 0 \<and> \<not> W dvd gradient_accumulation_steps config \<longrightarrow>
          ddp_setup config env = Inl AssertionError)
    \<and> (W \<noteq> 0 \<and> W dvd gradient_accumulation_steps config \<longrightarrow>
          (\<exists>pr. ddp_setup config env = Inr pr \<and> ddp pr \<and> ddp_world_size pr = W
             \<and> accum_steps pr = gradient_accumulation_steps config div W
             \<and> accum_steps pr * W = gradient_accumulation_steps config
             \<and> accum_steps pr * ddp_world_size pr * batch_size config * block_size config
                 = gradient_accumulation_steps config * batch_size config * block_size config
             \<and> tokens_per_iter pr
                 = gradient_accumulation_steps config * batch_size config * block_size config)))
   \<and> (RANK env = None \<or> RANK env = Some (- 1) \<longrightarrow>
        (\<exists>pr. ddp_setup config env = Inr pr \<and> \<not> ddp pr \<and> ddp_world_size pr = 1
           \<and> accum_steps pr = gradient_accumulation_steps config
           \<and> tokens_per_iter pr
               = gradient_accumulation_steps config * batch_size config * block_size config))"
proof (intro conjI impI)
  assume e: "RANK env = Some r \<and> r \<noteq> - 1 \<and> LOCAL_RANK env = Some l \<and> WORLD_SIZE env = Some W"
  { assume "W = 0"
    then show "ddp_setup config env = Inl ZeroDivisionError"
      using e by (simp add: ddp_setup_def) }
  { assume "W \<noteq> 0 \<and> \<not> W dvd gradient_accumulation_steps config"
    then show "ddp_setup config env = Inl AssertionError"
      using e by (simp add: ddp_setup_def mod_eq_0_iff_dvd) }
  { assume w: "W \<noteq> 0 \<and> W dvd gradient_accumulation_steps config"
    then have m: "gradient_accumulation_steps config mod W = 0"
      and d: "gradient_accumulation_steps config div W * W = gradient_accumulation_steps config"
      by (simp_all add: mod_eq_0_iff_dvd)
    show "\<exists>pr. ddp_setup config env = Inr pr \<and> ddp pr \<and> ddp_world_size pr = W
             \<and> accum_steps pr = gradient_accumulation_steps config div W
             \<and> accum_steps pr * W = gradient_accumulation_steps config
             \<and> accum_steps pr * ddp_world_size pr * batch_size config * block_size config
                 = gradient_accumulation_steps config * batch_size config * block_size config
             \<and> tokens_per_iter pr
                 = gradient_accumulation_steps config * batch_size config * block_size config"
      using e w m d by (simp add: ddp_setup_def Let_def) }
next
  assume "RANK env = None \<or> RANK env = Some (- 1)"
  then show "\<exists>pr. ddp_setup config env = Inr pr \<and> \<not> ddp pr \<and> ddp_world_size pr = 1
           \<and> accum_steps pr = gradient_accumulation_steps config
           \<and> tokens_per_iter pr
               = gradient_accumulation_steps config * batch_size config * block_size config"
    by (auto simp: ddp_setup_def)
qed

theorem ddp_accumulation_scaling_witness:
  "ddp_setup default_config (rank_env 1 0) = Inl ZeroDivisionError
   \<and> ddp_setup default_config (rank_env 1 3) = Inl AssertionError
   \<and> ddp_setup default_config (rank_env 1 8)
       = Inr \<lparr>ddp = True, ddp_world_size = 8, master_process = False, seed_offset = 1,
              accum_steps = 5, tokens_per_iter = 491520\<rparr>
   \<and> (\<exists>pr. ddp_setup default_config (rank_env 1 8) = Inr pr
         \<and> accum_steps pr = 5 \<and> tokens_per_iter pr = 40 * 12 * 1024)
   \<and> (\<exists>pr. ddp_setup default_config no_env = Inr pr
         \<and> accum_steps pr = 40 \<and> tokens_per_iter pr = 40 * 12 * 1024)"
  using ddp_accumulation_scaling[of "rank_env 1 0" 1 1 0 default_config]
    ddp_accumulation_scaling[of "rank_env 1 3" 1 1 3 default_config]
    ddp_accumulation_scaling[of "rank_env 1 8" 1 1 8 default_config]
    ddp_accumulation_scaling[of no_env 1 1 8 default_config]
  by (simp add: rank_env_def no_env_def default_config_def ddp_setup_def)

subsection \<open>Paths\<close>

lemma split_slash_nonempty: "split_slash s \<noteq> []"
  by (induction s) (auto split: list.splits)

lemma split_slash_snoc:
  "split_slash (s @ [c]) =
     (if c = CHR ''/'' then split_slash s @ [[]]
      else butlast (split_slash s) @ [last (split_slash s) @ [c]])"
proof (induction s)
  case Nil
  then show ?case by simp
next
  case (Cons a s)
  obtain w ws where w: "split_slash s = w # ws"
    using split_slash_nonempty[of s] by (cases "split_slash s") auto
  show ?case
    using Cons w by (auto split: list.splits simp: butlast_append)
qed

lemma basename_snoc:
  "basename (s @ [c]) = (if c = CHR ''/'' then [] else basename s @ [c])"
  by (simp add: basename_def)

lemma basename_split: "basename s = last (split_slash s)"
proof (induction s rule: rev_induct)
  case Nil
  then show ?case by (simp add: basename_def)
next
  case (snoc c s)
  then show ?case
    by (simp add: basename_snoc split_slash_snoc split_slash_nonempty)
qed

lemma basename_no_slash: "CHR ''/'' \<notin> set (basename s)"
  unfolding basename_def set_rev using set_takeWhileD by fastforce

lemma rstrip_slash_snoc:
  "rstrip_slash (s @ [c]) = (if c = CHR ''/'' then rstrip_slash s else s @ [c])"
  by (simp add: rstrip_slash_def)

lemma last_component_if:
  "last_component s = (if path_components s = [] then [] else last (path_components s))"
  by (cases "path_components s") (simp_all add: last_component_def)

lemma last_component_snoc:
  "last_component (s @ [c]) =
     (if c = CHR ''/'' then last_component s else basename s @ [c])"
proof (cases "c = CHR ''/''")
  case True
  then show ?thesis
    by (simp add: last_component_def path_components_def split_slash_snoc)
next
  case False
  have "path_components (s @ [c])
          = filter (\<lambda>w. w \<noteq> []) (butlast (split_slash s)) @ [last (split_slash s) @ [c]]"
    using False by (simp add: path_components_def split_slash_snoc)
  then have "last_component (s @ [c]) = last (split_slash s) @ [c]"
    by (simp add: last_component_if)
  then show ?thesis
    using False by (simp add: basename_split)
qed

lemma basename_rstrip: "basename (rstrip_slash s) = last_component s"
proof (induction s rule: rev_induct)
  case Nil
  then show ?case
    by (simp add: basename_def rstrip_slash_def last_component_def path_components_def)
next
  case (snoc c s)
  then show ?case
    by (simp add: rstrip_slash_snoc last_component_snoc basename_snoc)
qed

lemma path_join_relative:
  assumes "CHR ''/'' \<notin> set b" and "a \<noteq> []" and "last a \<noteq> CHR ''/''"
  shows "path_join a b = a @ ''/'' @ b"
  using assms by (cases b) (auto simp: path_join_def startswith_def)

lemma adjust_out_dir_moved:
  assumes "\<not> startswith (out_dir config) ''/checkpoints''"
  shows "out_dir (adjust_out_dir config) = ''/checkpoints/'' @ last_component (out_dir config)"
proof -
  have "path_join CHECKPOINT_DIR (basename (rstrip_slash (out_dir config)))
          = CHECKPOINT_DIR @ ''/'' @ basename (rstrip_slash (out_dir config))"
    by (rule path_join_relative) (simp_all add: basename_no_slash CHECKPOINT_DIR_def)
  then show ?thesis
    using assms
    by (simp add: adjust_out_dir_def CHECKPOINT_DIR_def Let_def basename_rstrip)
qed

lemma adjust_out_dir_kept:
  assumes "startswith (out_dir config) ''/checkpoints''"
  shows "adjust_out_dir config = config"
  using assms by (simp add: adjust_out_dir_def CHECKPOINT_DIR_def)

lemma adjust_out_dir_fields:
  "eval_interval (adjust_out_dir c) = eval_interval c"
  "eval_only (adjust_out_dir c) = eval_only c"
  "init_from (adjust_out_dir c) = init_from c"
  "applied_lr (adjust_out_dir c) = applied_lr c"
  by (auto simp: adjust_out_dir_def Let_def applied_lr_def get_lr_def fun_eq_iff)

subsection \<open>The loop\<close>

lemma train_loop_error:
  assumes "train_iteration config pr orc st = (evs, Inl e)"
  shows "train_loop config pr orc st = (evs, Inl e)"
  using assms by (subst train_loop.simps) simp

lemma train_loop_stop:
  assumes "train_iteration config pr orc st = (evs, Inr (st', True))"
  shows "train_loop config pr orc st = (evs, Inr st')"
  using assms by (subst train_loop.simps) simp

lemma train_loop_continue:
  assumes "train_iteration config pr orc st = (evs, Inr (st', False))"
  shows "train_loop config pr orc st
           = (evs @ fst (train_loop config pr orc st'), snd (train_loop config pr orc st'))"
  using assms by (subst train_loop.simps) (simp add: case_prod_beta)

lemma train_loop_prefix:
  "\<exists>rest. fst (train_loop config pr orc st) = fst (train_iteration config pr orc st) @ rest"
proof -
  obtain evs r where ti: "train_iteration config pr orc st = (evs, r)"
    by fastforce
  show ?thesis
  proof (cases r)
    case (Inl e)
    then show ?thesis using train_loop_error ti by fastforce
  next
    case (Inr y)
    obtain st' stop where y: "y = (st', stop)" by fastforce
    show ?thesis
    proof (cases stop)
      case True
      then show ?thesis using train_loop_stop ti Inr y by fastforce
    next
      case False
      then show ?thesis using train_loop_continue ti Inr y by fastforce
    qed
  qed
qed

lemma train_iteration_events:
  assumes "e \<in> set (fst (train_iteration config pr orc st))"
  shows "(\<exists>lr. e = SetLR lr)
       \<or> e \<in> set (fst (eval_step config pr orc st))
       \<or> (\<exists>l. e \<in> set (fst (micro_steps pr orc (iter_num st) (py_range (accum_steps pr)) l)))
       \<or> e \<in> set (clip_step config)
       \<or> e = OptimizerStep (iter_num st)
       \<or> (\<exists>l. e \<in> set (fst (log_step config pr (iter_num st) l)))"
proof (cases "applied_lr config (iter_num st)")
  case (Inl err)
  then show ?thesis using assms by (simp add: train_iteration_def)
next
  case (Inr lr)
  show ?thesis
  proof (cases "eval_interval config = 0")
    case True
    then show ?thesis
      using assms Inr by (simp add: train_iteration_def eval_step_cases)
  next
    case e: False
    show ?thesis
    proof (cases "iter_num st = 0 \<and> eval_only config")
      case True
      then show ?thesis
        using train_iteration_eval_only[OF Inr e, of pr orc] assms by auto
    next
      case False
      show ?thesis
        using assms unfolding train_iteration_trained[OF Inr e False] by auto
    qed
  qed
qed

lemma train_iteration_checkpoint_files:
  assumes "e \<in> set (fst (train_iteration config pr orc st))"
    and "checkpoint_file e = Some p"
  shows "p = ckpt_path config"
  using train_iteration_events[OF assms(1)] assms(2)
  by (auto dest!: eval_step_events micro_steps_events clip_step_events log_step_events)


lemma train_loop_events:
  assumes "e \<in> set (fst (train_loop config pr orc st))"
  shows "\<exists>st'. e \<in> set (fst (train_iteration config pr orc st'))"
  using assms
proof (induction config pr orc st rule: train_loop.induct)
  case (1 config pr orc st)
  obtain evs r where ti: "train_iteration config pr orc st = (evs, r)"
    by fastforce
  have here: "e \<in> set evs \<Longrightarrow> ?case"
    using ti by (metis fst_conv)
  show ?case
  proof (cases r)
    case (Inl err)
    then show ?thesis
      using train_loop_error[of config pr orc st evs err] ti "1.prems" here by simp
  next
    case (Inr y)
    obtain st' stop where y: "y = (st', stop)" by fastforce
    show ?thesis
    proof (cases stop)
      case True
      then show ?thesis
        using train_loop_stop[of config pr orc st evs st'] ti Inr y "1.prems" here by simp
    next
      case False
      have c: "fst (train_loop config pr orc st) = evs @ fst (train_loop config pr orc st')"
        using train_loop_continue[of config pr orc st evs st'] ti Inr y False by simp
      have ih: "e \<in> set (fst (train_loop config pr orc st')) \<Longrightarrow> ?thesis"
        using "1.IH"[OF ti[symmetric] Inr y[symmetric]] False by simp
      show ?thesis
        using "1.prems" c here ih by auto
    qed
  qed
qed

lemma train_loop_checkpoint_files:
  assumes "e \<in> set (fst (train_loop config pr orc st))"
    and "checkpoint_file e = Some p"
  shows "p = ckpt_path config"
  using train_loop_events[OF assms(1)] assms(2) train_iteration_checkpoint_files
  by blast

lemma train_iteration_no_makedirs:
  "MakeDirs d \<notin> set (fst (train_iteration config pr orc st))"
  using train_iteration_events[of "MakeDirs d" config pr orc st]
  by (auto dest!: eval_step_events micro_steps_events clip_step_events log_step_events)

subsection \<open>The whole run\<close>

lemma adjust_out_dir_sizes:
  "gradient_accumulation_steps (adjust_out_dir c) = gradient_accumulation_steps c"
  "batch_size (adjust_out_dir c) = batch_size c"
  "block_size (adjust_out_dir c) = block_size c"
  by (auto simp: adjust_out_dir_def Let_def)

lemma ddp_setup_adjust: "ddp_setup (adjust_out_dir c) env = ddp_setup c env"
  unfolding ddp_setup_def adjust_out_dir_sizes by (rule refl)

lemma train_resume:
  assumes "init_from config0 = ''resume''"
    and "files (ckpt_path (adjust_out_dir config0)) = Some ck"
    and "ddp_setup config0 env = Inr pr"
  shows "train config0 env files orc =
           ((if master_process pr then [MakeDirs (out_dir (adjust_out_dir config0))] else [])
            @ [LoadCheckpoint (ckpt_path (adjust_out_dir config0))]
            @ fst (train_loop (adjust_out_dir config0) pr orc
                 \<lparr>iter_num = ck_iter_num ck, local_iter_num = 0,
                  best_val_loss = ck_best_val_loss ck, loss = None\<rparr>),
            snd (train_loop (adjust_out_dir config0) pr orc
                 \<lparr>iter_num = ck_iter_num ck, local_iter_num = 0,
                  best_val_loss = ck_best_val_loss ck, loss = None\<rparr>))"
  using assms
  by (simp add: train_def Let_def ddp_setup_adjust model_init_def adjust_out_dir_fields
        case_prod_beta)

lemma train_events:
  assumes "e \<in> set (fst (train config0 env files orc))"
  shows "e = MakeDirs (out_dir (adjust_out_dir config0))
       \<or> e = LoadCheckpoint (ckpt_path (adjust_out_dir config0))
       \<or> (\<exists>pr st. e \<in> set (fst (train_loop (adjust_out_dir config0) pr orc st)))"
  using assms
  by (auto simp: train_def Let_def model_init_def case_prod_beta
        split: sum.splits if_splits option.splits prod.splits)

lemma first_train_skip:
  assumes "\<not> list_ex is_step xs"
  shows "first_train (xs @ ys) = first_train ys"
  using assms by (induction xs rule: first_train.induct) simp_all

lemma first_train_iteration:
  assumes "applied_lr config (iter_num st) = Inr lr"
    and "eval_interval config \<noteq> 0"
    and "\<not> (iter_num st = 0 \<and> eval_only config)"
  shows "first_train (fst (train_iteration config pr orc st) @ rest) = Some (iter_num st)"
proof -
  have e: "\<not> list_ex is_step (fst (eval_step config pr orc st))"
    by (auto simp: list_ex_iff dest!: eval_step_events)
  have m: "\<not> list_ex is_step (fst (micro_steps pr orc it ks l))" for it ks l
    by (auto simp: list_ex_iff dest!: micro_steps_events)
  have c: "\<not> list_ex is_step (clip_step config)"
    by (auto simp: list_ex_iff dest!: clip_step_events)
  show ?thesis
    unfolding train_iteration_trained[OF assms]
    using e m c by (simp add: first_train_skip)
qed

lemma train_resume_prefix:
  assumes "init_from config0 = ''resume''"
    and "files (ckpt_path (adjust_out_dir config0)) = Some ck"
    and "ddp_setup config0 env = Inr pr"
  shows "\<exists>rest. fst (train config0 env files orc) =
           (if master_process pr then [MakeDirs (out_dir (adjust_out_dir config0))] else [])
           @ [LoadCheckpoint (ckpt_path (adjust_out_dir config0))]
           @ fst (train_iteration (adjust_out_dir config0) pr orc
                \<lparr>iter_num = ck_iter_num ck, local_iter_num = 0,
                 best_val_loss = ck_best_val_loss ck, loss = None\<rparr>)
           @ rest"
proof -
  let ?c = "adjust_out_dir config0"
  let ?st = "\<lparr>iter_num = ck_iter_num ck, local_iter_num = 0,
              best_val_loss = ck_best_val_loss ck, loss = None\<rparr>"
  obtain rest where r: "fst (train_loop ?c pr orc ?st)
      = fst (train_iteration ?c pr orc ?st) @ rest"
    using train_loop_prefix by blast
  have "fst (train config0 env files orc) =
             (if master_process pr then [MakeDirs (out_dir ?c)] else [])
             @ [LoadCheckpoint (ckpt_path ?c)]
             @ fst (train_iteration ?c pr orc ?st) @ rest"
    using train_resume[where files = files and ck = ck and orc = orc, OF assms] r
    by simp
  then show ?thesis by blast
qed

lemma first_train_resume:
  assumes "init_from config0 = ''resume''"
    and "files (ckpt_path (adjust_out_dir config0)) = Some ck"
    and "0 < ck_iter_num ck"
    and "ddp_setup config0 env = Inr pr"
    and "eval_interval config0 \<noteq> 0"
    and "applied_lr config0 (ck_iter_num ck) = Inr lr"
  shows "first_train (fst (train config0 env files orc)) = Some (ck_iter_num ck)"
proof -
  let ?c = "adjust_out_dir config0"
  let ?st = "\<lparr>iter_num = ck_iter_num ck, local_iter_num = 0,
              best_val_loss = ck_best_val_loss ck, loss = None\<rparr>"
  obtain rest where r: "fst (train_loop ?c pr orc ?st)
      = fst (train_iteration ?c pr orc ?st) @ rest"
    using train_loop_prefix by blast
  have t: "fst (train config0 env files orc) =
             (if master_process pr then [MakeDirs (out_dir ?c)] else [])
             @ [LoadCheckpoint (ckpt_path ?c)]
             @ fst (train_iteration ?c pr orc ?st) @ rest"
    using train_resume[where files = files and ck = ck and orc = orc, OF assms(1,2,4)] r
    by simp
  have h: "applied_lr ?c (iter_num ?st) = Inr lr" "eval_interval ?c \<noteq> 0"
    "\<not> (iter_num ?st = 0 \<and> eval_only ?c)"
    using assms(3,5,6) by (simp_all add: adjust_out_dir_fields)
  have "first_train (fst (train_iteration ?c pr orc ?st) @ rest) = Some (iter_num ?st)"
    using h by (rule first_train_iteration)
  then show ?thesis
    unfolding t by simp
qed

lemma train_loads:
  assumes "init_from config0 = ''resume''" and "ddp_setup config0 env = Inr pr"
  shows "LoadCheckpoint (ckpt_path (adjust_out_dir config0))
           \<in> set (fst (train config0 env files orc))"
  using assms
  by (auto simp: train_def Let_def ddp_setup_adjust model_init_def adjust_out_dir_fields
        case_prod_beta split: option.splits)

subsection \<open>Resuming\<close>

lemma resume_sample_facts:
  "init_from resume_config = ''resume''"
  "sample_files (ckpt_path (adjust_out_dir resume_config))
     = Some \<lparr>ck_iter_num = 5000, ck_best_val_loss = 1.23\<rparr>"
  "ddp_setup resume_config no_env = Inr (single_process resume_config)"
  "eval_interval resume_config \<noteq> 0"
  by (simp_all add: resume_config_def default_config_def sample_files_def ckpt_path_def
        adjust_out_dir_def path_join_def startswith_def CHECKPOINT_DIR_def
        ddp_setup_def no_env_def single_process_def)

lemma resume_sample_lr:
  "\<exists>lr. applied_lr resume_config 5000 = Inr lr"
proof -
  have "get_lr resume_config 5000 =
    Inr (min_lr resume_config
         + 0.5 * (1.0 + cos (pi * (real_of_int (5000 - warmup_iters resume_config)
                 / real_of_int (lr_decay_iters resume_config - warmup_iters resume_config))))
           * (learning_rate resume_config - min_lr resume_config))"
    by (rule get_lr_cosine) (simp_all add: resume_config_def default_config_def)
  then show ?thesis
    by (simp add: applied_lr_def)
qed

text \<open>
  C1, as stated, puts the first training iteration after the resume at \<open>n + 1\<close>. The loop
  starts at the restored \<open>iter_num\<close> and increments it after the optimizer step: from a
  checkpoint with \<open>iter_num = 5000\<close> the first step is taken at \<open>5000\<close>, not \<open>5001\<close>.
\<close>

theorem resume_index_counterexample:
  "first_train (fst (train resume_config no_env sample_files sample_observations)) = Some 5000
   \<and> first_train (fst (train resume_config no_env sample_files sample_observations))
       \<noteq> Some 5001"
proof -
  obtain lr where lr: "applied_lr resume_config 5000 = Inr lr"
    using resume_sample_lr by blast
  have "first_train (fst (train resume_config no_env sample_files sample_observations))
          = Some 5000"
    using first_train_resume[where files = sample_files
        and ck = "\<lparr>ck_iter_num = 5000, ck_best_val_loss = 1.23\<rparr>"
        and lr = lr and orc = sample_observations,
        OF resume_sample_facts(1,2) _ resume_sample_facts(3,4)] lr
    by simp
  then show ?thesis by simp
qed

text \<open>
  C1 (amended): resuming from a checkpoint that records \<open>iter_num = n > 0\<close> restores
  \<open>iter_num = n\<close> and \<open>best_val_loss\<close> from the checkpoint, the loop's first iteration runs
  on that state, and the first training iteration after the resume has index \<open>n\<close> (a
  checkpoint with \<open>iter_num = 5000\<close> gives \<open>5000\<close>, never \<open>0\<close>), provided the set-up
  succeeds, \<open>eval_interval\<close> is not zero and the schedule yields a rate at \<open>n\<close>.
\<close>

theorem resume_first_iteration:
  assumes "init_from config0 = ''resume''"
    and "files (ckpt_path (adjust_out_dir config0)) = Some ck"
    and "0 < ck_iter_num ck"
    and "ddp_setup config0 env = Inr pr"
    and "eval_interval config0 \<noteq> 0"
    and "applied_lr config0 (ck_iter_num ck) = Inr lr"
  shows "snd (model_init (adjust_out_dir config0) files)
           = Inr (ck_iter_num ck, ck_best_val_loss ck)
       \<and> (\<exists>rest. fst (train config0 env files orc) =
             (if master_process pr then [MakeDirs (out_dir (adjust_out_dir config0))] else [])
             @ [LoadCheckpoint (ckpt_path (adjust_out_dir config0))]
             @ fst (train_iteration (adjust_out_dir config0) pr orc
                  \<lparr>iter_num = ck_iter_num ck, local_iter_num = 0,
                   best_val_loss = ck_best_val_loss ck, loss = None\<rparr>)
             @ rest)
       \<and> first_train (fst (train config0 env files orc)) = Some (ck_iter_num ck)"
proof (intro conjI)
  show "snd (model_init (adjust_out_dir config0) files)
          = Inr (ck_iter_num ck, ck_best_val_loss ck)"
    using assms(1,2) by (simp add: model_init_def adjust_out_dir_fields)
  show "\<exists>rest. fst (train config0 env files orc) =
             (if master_process pr then [MakeDirs (out_dir (adjust_out_dir config0))] else [])
             @ [LoadCheckpoint (ckpt_path (adjust_out_dir config0))]
             @ fst (train_iteration (adjust_out_dir config0) pr orc
                  \<lparr>iter_num = ck_iter_num ck, local_iter_num = 0,
                   best_val_loss = ck_best_val_loss ck, loss = None\<rparr>)
             @ rest"
    using assms(1,2,4) by (rule train_resume_prefix)
  show "first_train (fst (train config0 env files orc)) = Some (ck_iter_num ck)"
    using assms by (rule first_train_resume)
qed

theorem resume_first_iteration_witness:
  "snd (model_init (adjust_out_dir resume_config) sample_files) = Inr (5000, 1.23)
   \<and> first_train (fst (train resume_config no_env sample_files sample_observations))
       = Some 5000"
proof -
  obtain lr where lr: "applied_lr resume_config 5000 = Inr lr"
    using resume_sample_lr by blast
  show ?thesis
    using resume_first_iteration[where files = sample_files
        and ck = "\<lparr>ck_iter_num = 5000, ck_best_val_loss = 1.23\<rparr>"
        and lr = lr and orc = sample_observations,
        OF resume_sample_facts(1,2) _ resume_sample_facts(3,4)] lr
    by simp
qed

subsection \<open>Evaluate-only runs\<close>

text \<open>
  C9 (amended): with \<open>eval_only\<close> set and \<open>iter_num = 0\<close> at loop entry (non-zero
  \<open>eval_interval\<close>, rate computable at \<open>0\<close>) the loop ends in its first iteration. Its trace
  is the rate followed by one evaluation on the master process and by nothing on any other
  process: no optimizer step, no micro-step, and no checkpoint write, the save being
  suppressed at iteration \<open>0\<close>.
\<close>

theorem eval_only_single_pass:
  assumes "eval_only config" and "iter_num st = 0"
    and "eval_interval config \<noteq> 0"
    and "applied_lr config 0 = Inr lr"
  shows "(\<exists>st'. train_loop config pr orc st
                  = (SetLR lr # (if master_process pr then [EstimateLoss 0] else []), Inr st')
               \<and> iter_num st' = 0 \<and> local_iter_num st' = local_iter_num st)
       \<and> length (filter is_eval (fst (train_loop config pr orc st)))
           = (if master_process pr then 1 else 0)
       \<and> \<not> list_ex is_step (fst (train_loop config pr orc st))
       \<and> \<not> list_ex is_backward (fst (train_loop config pr orc st))
       \<and> \<not> list_ex is_save (fst (train_loop config pr orc st))"
proof -
  have lr: "applied_lr config (iter_num st) = Inr lr"
    using assms(2,4) by simp
  obtain st1 where ti: "train_iteration config pr orc st
           = (SetLR lr # fst (eval_step config pr orc st), Inr (st1, True))"
    and es: "snd (eval_step config pr orc st) = Inr st1"
    using train_iteration_eval_only[OF lr assms(3,2,1), of pr orc] by blast
  have ev: "fst (eval_step config pr orc st)
              = (if master_process pr then [EstimateLoss 0] else [])"
    using assms(2,3) by (simp add: eval_step_cases)
  have k: "iter_num st1 = 0" "local_iter_num st1 = local_iter_num st"
    using eval_step_keeps[of config pr orc st "fst (eval_step config pr orc st)" st1]
      es assms(2) by (simp_all add: prod_eq_iff)
  have tl: "train_loop config pr orc st
              = (SetLR lr # (if master_process pr then [EstimateLoss 0] else []), Inr st1)"
    using train_loop_stop[OF ti] ev by simp
  show ?thesis
    using k by (simp add: tl)
qed

lemma applied_lr_0:
  "applied_lr (default_config\<lparr>eval_only := True\<rparr>) 0 = Inr (6 / 10000 * 1 / 2001)"
  by (simp add: applied_lr_def get_lr_def default_config_def)

theorem eval_only_single_pass_witness:
  "(\<exists>st'. train_loop (default_config\<lparr>eval_only := True\<rparr>)
            (single_process default_config) sample_observations initial_state
          = ([SetLR (6 / 10000 * 1 / 2001), EstimateLoss 0], Inr st'))
   \<and> length (filter is_eval (fst (train_loop (default_config\<lparr>eval_only := True\<rparr>)
        (single_process default_config) sample_observations initial_state))) = 1
   \<and> length (filter is_eval (fst (train_loop (default_config\<lparr>eval_only := True\<rparr>)
        worker_process sample_observations initial_state))) = 0"
proof -
  have h: "eval_only (default_config\<lparr>eval_only := True\<rparr>)" "iter_num initial_state = 0"
    "eval_interval (default_config\<lparr>eval_only := True\<rparr>) \<noteq> 0"
    by (simp_all add: default_config_def initial_state_def)
  have m: "master_process (single_process default_config)" "\<not> master_process worker_process"
    by (simp_all add: single_process_def worker_process_def)
  show ?thesis
    using eval_only_single_pass[OF h applied_lr_0, of "single_process default_config"
        sample_observations]
      eval_only_single_pass[OF h applied_lr_0, of worker_process sample_observations]
    by (auto simp: m)
qed

text \<open>
  C9, as stated, promises exactly one evaluation pass. The evaluation is guarded by
  \<open>master_process\<close>: on rank \<open>1\<close> of a distributed run the evaluate-only loop ends without
  any evaluation.
\<close>

theorem eval_only_worker_counterexample:
  "train (default_config\<lparr>eval_only := True\<rparr>) (rank_env 1 8) Map.empty sample_observations
     = ([SetLR (6 / 10000 * 1 / 2001)], Inr initial_state)
   \<and> filter is_eval [SetLR (6 / 10000 * 1 / 2001)] = []"
  apply (simp add: train_def adjust_out_dir_def startswith_def CHECKPOINT_DIR_def
      default_config_def ddp_setup_def rank_env_def model_init_def)
  apply (subst train_loop.simps)
  apply (simp add: train_iteration_def applied_lr_def get_lr_def eval_step_def
      initial_state_def)
  done

subsection \<open>Output directory\<close>

text \<open>
  C10: when the configured \<open>out_dir\<close> does not start with \<open>/checkpoints\<close>, the directory used
  by the run is \<open>/checkpoints/\<close> followed by the last path component of the configured one;
  every checkpoint file the run loads or saves is \<open>ckpt.pt\<close> joined to that directory, the
  directory created is that directory, and a resumed run does load from it.
\<close>

theorem out_dir_adjusted:
  assumes "\<not> startswith (out_dir config0) ''/checkpoints''"
  shows "out_dir (adjust_out_dir config0)
           = ''/checkpoints/'' @ last_component (out_dir config0)
       \<and> (\<forall>e \<in> set (fst (train config0 env files orc)).
             (\<forall>p. checkpoint_file e = Some p \<longrightarrow>
                   p = path_join (''/checkpoints/'' @ last_component (out_dir config0))
                         ''ckpt.pt'')
             \<and> (\<forall>d. e = MakeDirs d \<longrightarrow>
                   d = ''/checkpoints/'' @ last_component (out_dir config0)))
       \<and> (init_from config0 = ''resume'' \<and> ddp_setup config0 env = Inr pr \<longrightarrow>
             LoadCheckpoint (path_join (''/checkpoints/'' @ last_component (out_dir config0))
                               ''ckpt.pt'')
               \<in> set (fst (train config0 env files orc)))"
proof (intro conjI ballI allI impI)
  let ?c = "adjust_out_dir config0"
  show o: "out_dir ?c = ''/checkpoints/'' @ last_component (out_dir config0)"
    using assms by (rule adjust_out_dir_moved)
  then have cp: "ckpt_path ?c
      = path_join (''/checkpoints/'' @ last_component (out_dir config0)) ''ckpt.pt''"
    by (simp add: ckpt_path_def)
  {
    fix e p
    assume e: "e \<in> set (fst (train config0 env files orc))"
      and p: "checkpoint_file e = Some p"
    from train_events[OF e] p
    have "p = ckpt_path ?c"
      by (auto dest: train_loop_checkpoint_files)
    then show "p = path_join (''/checkpoints/'' @ last_component (out_dir config0)) ''ckpt.pt''"
      using cp by simp
  }
  {
    fix e d
    assume e: "e \<in> set (fst (train config0 env files orc))"
      and d: "e = MakeDirs d"
    from train_events[OF e] d
    have "d = out_dir ?c \<or> (\<exists>pr st. MakeDirs d \<in> set (fst (train_loop ?c pr orc st)))"
      by auto
    moreover have "MakeDirs d \<notin> set (fst (train_loop ?c pr orc st))" for pr st
      using train_loop_events[of "MakeDirs d" ?c pr orc st] train_iteration_no_makedirs
      by blast
    ultimately show "d = ''/checkpoints/'' @ last_component (out_dir config0)"
      using o by auto
  }
  {
    assume "init_from config0 = ''resume'' \<and> ddp_setup config0 env = Inr pr"
    then show "LoadCheckpoint (path_join (''/checkpoints/'' @ last_component (out_dir config0))
                               ''ckpt.pt'')
               \<in> set (fst (train config0 env files orc))"
      using train_loads[of config0 env pr files orc] cp by simp
  }
qed


lemma moved_adjusted:
  "out_dir (adjust_out_dir moved_config) = ''/checkpoints/out-shakespeare-char''"
  "ckpt_path (adjust_out_dir moved_config) = ''/checkpoints/out-shakespeare-char/ckpt.pt''"
  by (simp_all add: moved_config_def default_config_def adjust_out_dir_def ckpt_path_def
        basename_def rstrip_slash_def path_join_def startswith_def CHECKPOINT_DIR_def)

lemma moved_facts:
  "init_from moved_config = ''resume''"
  "moved_files (ckpt_path (adjust_out_dir moved_config))
     = Some \<lparr>ck_iter_num = 2000, ck_best_val_loss = 2.5\<rparr>"
  "ddp_setup moved_config no_env = Inr (single_process moved_config)"
proof -
  show "init_from moved_config = ''resume''"
    by (simp add: moved_config_def)
  show "moved_files (ckpt_path (adjust_out_dir moved_config))
     = Some \<lparr>ck_iter_num = 2000, ck_best_val_loss = 2.5\<rparr>"
    unfolding moved_adjusted(2) by (simp add: moved_files_def)
  show "ddp_setup moved_config no_env = Inr (single_process moved_config)"
    by (simp add: ddp_setup_def no_env_def single_process_def)
qed

lemma always_save_adjust:
  "always_save_checkpoint (adjust_out_dir c) = always_save_checkpoint c"
  by (simp add: adjust_out_dir_def Let_def)

lemma moved_run:
  "MakeDirs ''/checkpoints/out-shakespeare-char''
     \<in> set (fst (train moved_config no_env moved_files sample_observations))"
  "SaveCheckpoint ''/checkpoints/out-shakespeare-char/ckpt.pt''
        \<lparr>ck_iter_num = 2000, ck_best_val_loss = 2.4\<rparr>
     \<in> set (fst (train moved_config no_env moved_files sample_observations))"
proof -
  let ?c = "adjust_out_dir moved_config"
  let ?pr = "single_process moved_config"
  let ?st = "\<lparr>iter_num = 2000, local_iter_num = 0, best_val_loss = 2.5, loss = None\<rparr>"
  have m: "master_process ?pr"
    by (simp add: single_process_def)
  obtain rest where t: "fst (train moved_config no_env moved_files sample_observations) =
      (if master_process ?pr then [MakeDirs (out_dir ?c)] else [])
      @ [LoadCheckpoint (ckpt_path ?c)]
      @ fst (train_iteration ?c ?pr sample_observations ?st) @ rest"
    using train_resume_prefix[where files = moved_files
        and ck = "\<lparr>ck_iter_num = 2000, ck_best_val_loss = 2.5\<rparr>"
        and orc = sample_observations, OF moved_facts]
    by force
  have h: "applied_lr ?c (iter_num ?st) = Inr (6 / 10000)" "eval_interval ?c \<noteq> 0"
    "\<not> (iter_num ?st = 0 \<and> eval_only ?c)"
    by (simp_all add: adjust_out_dir_fields)
       (simp_all add: moved_config_def default_config_def applied_lr_def)
  have v: "eval_interval ?c = 2000" "always_save_checkpoint ?c"
    by (simp_all add: adjust_out_dir_fields always_save_adjust)
       (simp_all add: moved_config_def default_config_def)
  have l: "loss_val (estimate_loss sample_observations 2000) = 2.4"
    by (simp add: sample_observations_def)
  have e: "fst (eval_step ?c ?pr sample_observations ?st)
      = [EstimateLoss 2000,
         SaveCheckpoint ''/checkpoints/out-shakespeare-char/ckpt.pt''
           \<lparr>ck_iter_num = 2000, ck_best_val_loss = 2.4\<rparr>]"
    by (simp add: eval_step_cases moved_adjusted(2) v m l)
  show "MakeDirs ''/checkpoints/out-shakespeare-char''
     \<in> set (fst (train moved_config no_env moved_files sample_observations))"
    unfolding t by (simp add: m moved_adjusted(1))
  show "SaveCheckpoint ''/checkpoints/out-shakespeare-char/ckpt.pt''
        \<lparr>ck_iter_num = 2000, ck_best_val_loss = 2.4\<rparr>
     \<in> set (fst (train moved_config no_env moved_files sample_observations))"
    unfolding t train_iteration_trained[OF h] e by simp
qed

theorem out_dir_adjusted_witness:
  "out_dir (adjust_out_dir moved_config) = ''/checkpoints/out-shakespeare-char''
   \<and> LoadCheckpoint ''/checkpoints/out-shakespeare-char/ckpt.pt''
       \<in> set (fst (train moved_config no_env moved_files sample_observations))
   \<and> SaveCheckpoint ''/checkpoints/out-shakespeare-char/ckpt.pt''
        \<lparr>ck_iter_num = 2000, ck_best_val_loss = 2.4\<rparr>
       \<in> set (fst (train moved_config no_env moved_files sample_observations))
   \<and> MakeDirs ''/checkpoints/out-shakespeare-char''
       \<in> set (fst (train moved_config no_env moved_files sample_observations))"
proof -
  have n: "\<not> startswith (out_dir moved_config) ''/checkpoints''"
    by (simp add: moved_config_def startswith_def)
  have l: "last_component (out_dir moved_config) = ''out-shakespeare-char''"
    by (simp add: moved_config_def last_component_def path_components_def)
  have j: "path_join ''/checkpoints/out-shakespeare-char'' ''ckpt.pt''
             = ''/checkpoints/out-shakespeare-char/ckpt.pt''"
    by (simp add: path_join_def startswith_def)
  note a = out_dir_adjusted[OF n, of no_env moved_files sample_observations
        "single_process moved_config"]
  have c1: "out_dir (adjust_out_dir moved_config) = ''/checkpoints/out-shakespeare-char''"
    using a[THEN conjunct1] by (simp add: l)
  have c3: "LoadCheckpoint ''/checkpoints/out-shakespeare-char/ckpt.pt''
       \<in> set (fst (train moved_config no_env moved_files sample_observations))"
    using a[THEN conjunct2, THEN conjunct2] moved_facts(1,3) by (simp add: l j)
  show ?thesis
    using c1 c3 moved_run by blast
qed

subsection \<open>Best validation loss\<close>

lemma eval_losses_append:
  "eval_losses orc (xs @ ys) = eval_losses orc xs @ eval_losses orc ys"
  by (induction orc xs rule: eval_losses.induct) simp_all

lemma eval_losses_none:
  assumes "\<not> list_ex is_eval xs"
  shows "eval_losses orc xs = []"
  using assms by (induction orc xs rule: eval_losses.induct) simp_all

lemma iteration_best:
  assumes "train_iteration config pr orc st = (evs, Inr (st', stop))"
  shows "best_val_loss st' =
           (if iter_num st mod eval_interval config = 0 \<and> master_process pr then
              (if always_save_checkpoint config
               then loss_val (estimate_loss orc (iter_num st))
               else min (best_val_loss st) (loss_val (estimate_loss orc (iter_num st))))
            else best_val_loss st)"
  using assms
  by (auto simp: train_iteration_def eval_step_cases Let_def min_def
        split: sum.splits prod.splits if_splits)

lemma iteration_eval_losses:
  assumes "train_iteration config pr orc st = (evs, Inr (st', stop))"
  shows "eval_losses orc evs =
           (if iter_num st mod eval_interval config = 0 \<and> master_process pr
            then [loss_val (estimate_loss orc (iter_num st))] else [])"
proof -
  obtain lr where lr: "applied_lr config (iter_num st) = Inr lr"
    using assms by (cases "applied_lr config (iter_num st)") (auto simp: train_iteration_def)
  have e: "eval_interval config \<noteq> 0"
    using assms lr by (auto simp: train_iteration_def eval_step_cases)
  have m: "eval_losses orc (fst (micro_steps pr orc it ks l)) = []" for it ks l
    by (rule eval_losses_none) (auto simp: list_ex_iff dest!: micro_steps_events)
  have c: "eval_losses orc (clip_step config) = []"
    by (rule eval_losses_none) (auto simp: list_ex_iff dest!: clip_step_events)
  have g: "eval_losses orc (fst (log_step config pr it l)) = []" for it l
    by (rule eval_losses_none) (auto simp: list_ex_iff dest!: log_step_events)
  have v: "eval_losses orc (fst (eval_step config pr orc st)) =
           (if iter_num st mod eval_interval config = 0 \<and> master_process pr
            then [loss_val (estimate_loss orc (iter_num st))] else [])"
    using e by (simp add: eval_step_cases)
  have "eval_losses orc (fst (train_iteration config pr orc st))
          = eval_losses orc (fst (eval_step config pr orc st))"
  proof (cases "iter_num st = 0 \<and> eval_only config")
    case True
    then show ?thesis
      using train_iteration_eval_only[OF lr e, of pr orc] by auto
  next
    case False
    show ?thesis
      by (simp add: train_iteration_trained[OF lr e False] eval_losses_append m c g)
  qed
  then show ?thesis
    using assms v by simp
qed

lemma iteration_best_fold:
  assumes "train_iteration config pr orc st = (evs, Inr (st', stop))"
  shows "best_val_loss st' = foldl (update_best config) (best_val_loss st) (eval_losses orc evs)"
  using iteration_best[OF assms] iteration_eval_losses[OF assms]
  by (auto simp: update_best_def min_def)

lemma train_loop_best_fold:
  assumes "train_loop config pr orc st = (evs, Inr st')"
  shows "best_val_loss st' = foldl (update_best config) (best_val_loss st) (eval_losses orc evs)"
  using assms
proof (induction config pr orc st arbitrary: evs st' rule: train_loop.induct)
  case (1 config pr orc st)
  obtain ev1 r where ti: "train_iteration config pr orc st = (ev1, r)"
    by fastforce
  show ?case
  proof (cases r)
    case (Inl err)
    then show ?thesis
      using train_loop_error[of config pr orc st ev1 err] ti "1.prems" by simp
  next
    case (Inr y)
    obtain st1 stop where y: "y = (st1, stop)" by fastforce
    note it = ti[unfolded Inr y]
    show ?thesis
    proof (cases stop)
      case True
      then have "evs = ev1" "st' = st1"
        using train_loop_stop[of config pr orc st ev1 st1] it "1.prems" by simp_all
      then show ?thesis
        using iteration_best_fold[OF it] by simp
    next
      case False
      have c: "train_loop config pr orc st
                 = (ev1 @ fst (train_loop config pr orc st1), snd (train_loop config pr orc st1))"
        using train_loop_continue[of config pr orc st ev1 st1] it False by simp
      then have r: "train_loop config pr orc st1 = (fst (train_loop config pr orc st1), Inr st')"
        and e: "evs = ev1 @ fst (train_loop config pr orc st1)"
        using "1.prems" by (simp_all add: prod_eq_iff)
      have "best_val_loss st' = foldl (update_best config) (best_val_loss st1)
              (eval_losses orc (fst (train_loop config pr orc st1)))"
        using "1.IH"[OF ti[symmetric] Inr y[symmetric] _ r] False by simp
      then show ?thesis
        using iteration_best_fold[OF it[unfolded False]] e False
        by (simp add: eval_losses_append)
    qed
  qed
qed

lemma fold_min:
  assumes "\<not> always_save_checkpoint config"
  shows "foldl (update_best config) b vs = Min (set (b # vs))"
  using assms
proof (induction vs arbitrary: b)
  case Nil
  then show ?case by simp
next
  case (Cons v vs)
  have "update_best config b v = min b v"
    using Cons.prems by (simp add: update_best_def min_def)
  then have "foldl (update_best config) b (v # vs) = Min (set (min b v # vs))"
    using Cons by simp
  also have "\<dots> = Min (set (b # v # vs))"
  proof (cases "vs = []")
    case True
    then show ?thesis by (simp add: min_def)
  next
    case False
    then show ?thesis
      by (simp add: Min_insert min.assoc)
  qed
  finally show ?case .
qed

lemma fold_last:
  assumes "always_save_checkpoint config"
  shows "foldl (update_best config) b vs = last (b # vs)"
  using assms by (induction vs arbitrary: b) (simp_all add: update_best_def)

lemma update_best_adjust: "update_best (adjust_out_dir c) = update_best c"
  by (simp add: update_best_def fun_eq_iff adjust_out_dir_def Let_def)

lemma train_scratch:
  assumes "init_from config0 = ''scratch''" and "ddp_setup config0 env = Inr pr"
  shows "train config0 env files orc =
           ((if master_process pr then [MakeDirs (out_dir (adjust_out_dir config0))] else [])
            @ fst (train_loop (adjust_out_dir config0) pr orc
                 \<lparr>iter_num = 0, local_iter_num = 0, best_val_loss = 1000000000,
                  loss = None\<rparr>),
            snd (train_loop (adjust_out_dir config0) pr orc
                 \<lparr>iter_num = 0, local_iter_num = 0, best_val_loss = 1000000000,
                  loss = None\<rparr>))"
  using assms
  by (simp add: train_def Let_def ddp_setup_adjust model_init_def adjust_out_dir_fields
        case_prod_beta)

lemma model_init_events:
  "eval_losses orc (fst (model_init config files)) = []"
  by (simp add: model_init_def split: option.splits)

lemma train_best_fold:
  assumes "train config0 env files orc = (evs, Inr st')"
    and "model_init (adjust_out_dir config0) files = (ev0, Inr (it0, b0))"
  shows "best_val_loss st' = foldl (update_best config0) b0 (eval_losses orc evs)"
proof -
  let ?c = "adjust_out_dir config0"
  let ?st = "\<lparr>iter_num = it0, local_iter_num = 0, best_val_loss = b0, loss = None\<rparr>"
  obtain pr where pr: "ddp_setup ?c env = Inr pr"
    using assms(1) by (cases "ddp_setup ?c env") (auto simp: train_def Let_def)
  have t: "train config0 env files orc =
      ((if master_process pr then [MakeDirs (out_dir ?c)] else []) @ ev0
         @ fst (train_loop ?c pr orc ?st), snd (train_loop ?c pr orc ?st))"
    using pr assms(2) by (simp add: train_def Let_def case_prod_beta)
  then have l: "train_loop ?c pr orc ?st = (fst (train_loop ?c pr orc ?st), Inr st')"
    and e: "evs = (if master_process pr then [MakeDirs (out_dir ?c)] else []) @ ev0
         @ fst (train_loop ?c pr orc ?st)"
    using assms(1) by (simp_all add: prod_eq_iff)
  have z: "eval_losses orc ev0 = []"
    using model_init_events[of orc ?c files] assms(2) by simp
  have "eval_losses orc evs = eval_losses orc (fst (train_loop ?c pr orc ?st))"
    unfolding e by (simp add: eval_losses_append z)
  then show ?thesis
    using train_loop_best_fold[OF l] by (simp add: update_best_adjust)
qed

lemma short_run:
  "train short_config no_env Map.empty sample_observations =
     ([MakeDirs ''/checkpoints/out'',
       SetLR (6 / 10000), EstimateLoss 0, Backward 0 0 4, Unscale, ClipGradNorm 1,
       OptimizerStep 0, LogIter 0 4,
       SetLR (6 / 10000), EstimateLoss 1,
       SaveCheckpoint ''/checkpoints/out/ckpt.pt'' \<lparr>ck_iter_num = 1, ck_best_val_loss = 2.4\<rparr>,
       Backward 1 0 4, Unscale, ClipGradNorm 1, OptimizerStep 1, LogIter 1 4],
      Inr \<lparr>iter_num = 2, local_iter_num = 2, best_val_loss = 2.4, loss = Some 4\<rparr>)"
  apply (simp add: train_def adjust_out_dir_def startswith_def CHECKPOINT_DIR_def
      short_config_def default_config_def ddp_setup_def no_env_def model_init_def)
  apply (subst train_loop.simps)
  apply (simp add: train_iteration_def applied_lr_def eval_step_def log_step_def clip_step_def
      py_range_def sample_observations_def ckpt_path_def path_join_def startswith_def)
  apply (subst train_loop.simps)
  apply (simp add: train_iteration_def applied_lr_def eval_step_def log_step_def clip_step_def
      py_range_def sample_observations_def ckpt_path_def path_join_def startswith_def)
  done

lemma short_run_always:
  "train (short_config\<lparr>always_save_checkpoint := True\<rparr>) no_env Map.empty rising_observations =
     ([MakeDirs ''/checkpoints/out'',
       SetLR (6 / 10000), EstimateLoss 0, Backward 0 0 4, Unscale, ClipGradNorm 1,
       OptimizerStep 0, LogIter 0 4,
       SetLR (6 / 10000), EstimateLoss 1,
       SaveCheckpoint ''/checkpoints/out/ckpt.pt'' \<lparr>ck_iter_num = 1, ck_best_val_loss = 3\<rparr>,
       Backward 1 0 4, Unscale, ClipGradNorm 1, OptimizerStep 1, LogIter 1 4],
      Inr \<lparr>iter_num = 2, local_iter_num = 2, best_val_loss = 3, loss = Some 4\<rparr>)"
  apply (simp add: train_def adjust_out_dir_def startswith_def CHECKPOINT_DIR_def
      short_config_def default_config_def ddp_setup_def no_env_def model_init_def)
  apply (subst train_loop.simps)
  apply (simp add: train_iteration_def applied_lr_def eval_step_def log_step_def clip_step_def
      py_range_def rising_observations_def ckpt_path_def path_join_def startswith_def)
  apply (subst train_loop.simps)
  apply (simp add: train_iteration_def applied_lr_def eval_step_def log_step_def clip_step_def
      py_range_def rising_observations_def ckpt_path_def path_join_def startswith_def)
  done


text \<open>
  C3, as stated, makes every evaluation a minimum. With the default configuration
  (\<open>always_save_checkpoint\<close> set) an evaluation that estimates \<open>2.4\<close> against a best of
  \<open>2\<close> raises \<open>best_val_loss\<close> to \<open>2.4\<close>.
\<close>

theorem best_val_loss_not_minimum_counterexample:
  "eval_step default_config (single_process default_config) sample_observations
       \<lparr>iter_num = 2000, local_iter_num = 2000, best_val_loss = 2, loss = None\<rparr>
     = ([EstimateLoss 2000,
         SaveCheckpoint ''/checkpoints/out/ckpt.pt''
           \<lparr>ck_iter_num = 2000, ck_best_val_loss = 2.4\<rparr>],
        Inr \<lparr>iter_num = 2000, local_iter_num = 2000, best_val_loss = 2.4, loss = None\<rparr>)
   \<and> min (2::real) 2.4 = 2"
  by (simp add: eval_step_cases default_config_def single_process_def sample_observations_def
        ckpt_path_def path_join_def startswith_def)

text \<open>
  C3 (amended): a fresh run enters the loop with \<open>best_val_loss\<close> at the sentinel \<open>1e9\<close>
  (a resumed run with the checkpoint's value). Every iteration with an evaluation (master
  process, iteration on the cadence) leaves \<open>best_val_loss\<close> at the validation loss just
  estimated when \<open>always_save_checkpoint\<close> is set, and at the minimum of its old value and
  that loss when the flag is off; every iteration without an evaluation leaves it unchanged.
  So, over a loop and over a whole run, with the flag off \<open>best_val_loss\<close> is the minimum of
  its initial value and the validation losses estimated so far, and with the flag on it is
  the last of them.
\<close>

theorem best_val_loss_update:
  "(eval_interval config \<noteq> 0 \<longrightarrow>
      (\<exists>evs st'. eval_step config pr orc st = (evs, Inr st')
         \<and> best_val_loss st' =
             (if iter_num st mod eval_interval config = 0 \<and> master_process pr then
                (if always_save_checkpoint config
                 then loss_val (estimate_loss orc (iter_num st))
                 else min (best_val_loss st) (loss_val (estimate_loss orc (iter_num st))))
              else best_val_loss st)))
   \<and> (train_iteration config pr orc st = (evs1, Inr (st1, stop)) \<longrightarrow>
        best_val_loss st1 =
          (if iter_num st mod eval_interval config = 0 \<and> master_process pr then
             (if always_save_checkpoint config
              then loss_val (estimate_loss orc (iter_num st))
              else min (best_val_loss st) (loss_val (estimate_loss orc (iter_num st))))
           else best_val_loss st))
   \<and> (train_loop config pr orc st = (evs2, Inr st2) \<longrightarrow>
        (\<not> always_save_checkpoint config \<longrightarrow>
           best_val_loss st2 = Min (set (best_val_loss st # eval_losses orc evs2)))
      \<and> (always_save_checkpoint config \<longrightarrow>
           best_val_loss st2 = last (best_val_loss st # eval_losses orc evs2)))
   \<and> (train config env files orc = (evs3, Inr st3)
        \<and> model_init (adjust_out_dir config) files = (ev0, Inr (it0, b0)) \<longrightarrow>
        (\<not> always_save_checkpoint config \<longrightarrow>
           best_val_loss st3 = Min (set (b0 # eval_losses orc evs3)))
      \<and> (always_save_checkpoint config \<longrightarrow>
           best_val_loss st3 = last (b0 # eval_losses orc evs3)))
   \<and> (init_from config = ''scratch'' \<longrightarrow>
        model_init (adjust_out_dir config) files = ([], Inr (0, 1000000000)))
   \<and> (init_from config = ''scratch'' \<and> ddp_setup config env = Inr pr0 \<longrightarrow>
        train config env files orc =
          ((if master_process pr0 then [MakeDirs (out_dir (adjust_out_dir config))] else [])
           @ fst (train_loop (adjust_out_dir config) pr0 orc
                \<lparr>iter_num = 0, local_iter_num = 0, best_val_loss = 1000000000,
                 loss = None\<rparr>),
           snd (train_loop (adjust_out_dir config) pr0 orc
                \<lparr>iter_num = 0, local_iter_num = 0, best_val_loss = 1000000000,
                 loss = None\<rparr>)))"
proof (intro conjI impI)
  assume "eval_interval config \<noteq> 0"
  then show "\<exists>evs st'. eval_step config pr orc st = (evs, Inr st')
         \<and> best_val_loss st' =
             (if iter_num st mod eval_interval config = 0 \<and> master_process pr then
                (if always_save_checkpoint config
                 then loss_val (estimate_loss orc (iter_num st))
                 else min (best_val_loss st) (loss_val (estimate_loss orc (iter_num st))))
              else best_val_loss st)"
    by (auto simp: eval_step_cases min_def)
next
  assume "train_iteration config pr orc st = (evs1, Inr (st1, stop))"
  then show "best_val_loss st1 =
          (if iter_num st mod eval_interval config = 0 \<and> master_process pr then
             (if always_save_checkpoint config
              then loss_val (estimate_loss orc (iter_num st))
              else min (best_val_loss st) (loss_val (estimate_loss orc (iter_num st))))
           else best_val_loss st)"
    by (rule iteration_best)
next
  assume "train_loop config pr orc st = (evs2, Inr st2)" and "\<not> always_save_checkpoint config"
  then show "best_val_loss st2 = Min (set (best_val_loss st # eval_losses orc evs2))"
    using train_loop_best_fold fold_min by metis
next
  assume "train_loop config pr orc st = (evs2, Inr st2)" and "always_save_checkpoint config"
  then show "best_val_loss st2 = last (best_val_loss st # eval_losses orc evs2)"
    using train_loop_best_fold fold_last by metis
next
  assume "train config env files orc = (evs3, Inr st3)
        \<and> model_init (adjust_out_dir config) files = (ev0, Inr (it0, b0))"
    and "\<not> always_save_checkpoint config"
  then show "best_val_loss st3 = Min (set (b0 # eval_losses orc evs3))"
    using train_best_fold fold_min by metis
next
  assume "train config env files orc = (evs3, Inr st3)
        \<and> model_init (adjust_out_dir config) files = (ev0, Inr (it0, b0))"
    and "always_save_checkpoint config"
  then show "best_val_loss st3 = last (b0 # eval_losses orc evs3)"
    using train_best_fold fold_last by metis
next
  assume "init_from config = ''scratch''"
  then show "model_init (adjust_out_dir config) files = ([], Inr (0, 1000000000))"
    by (simp add: model_init_def adjust_out_dir_fields)
next
  assume "init_from config = ''scratch'' \<and> ddp_setup config env = Inr pr0"
  then show "train config env files orc =
          ((if master_process pr0 then [MakeDirs (out_dir (adjust_out_dir config))] else [])
           @ fst (train_loop (adjust_out_dir config) pr0 orc
                \<lparr>iter_num = 0, local_iter_num = 0, best_val_loss = 1000000000,
                 loss = None\<rparr>),
           snd (train_loop (adjust_out_dir config) pr0 orc
                \<lparr>iter_num = 0, local_iter_num = 0, best_val_loss = 1000000000,
                 loss = None\<rparr>))"
    using train_scratch by blast
qed

theorem best_val_loss_update_witness:
  "(\<exists>evs st'. train short_config no_env Map.empty sample_observations = (evs, Inr st')
       \<and> eval_losses sample_observations evs = [2.5, 2.4]
       \<and> best_val_loss st' = Min (set [1000000000, 2.5, 2.4])
       \<and> best_val_loss st' = 2.4)
   \<and> (\<exists>evs st'. train (short_config\<lparr>always_save_checkpoint := True\<rparr>) no_env Map.empty
                   rising_observations = (evs, Inr st')
       \<and> eval_losses rising_observations evs = [2, 3]
       \<and> best_val_loss st' = last [1000000000, 2, 3]
       \<and> best_val_loss st' = 3)
   \<and> (\<exists>evs st'. eval_step (default_config\<lparr>always_save_checkpoint := False\<rparr>)
                 (single_process default_config) sample_observations
                 \<lparr>iter_num = 2000, local_iter_num = 2000, best_val_loss = 2, loss = None\<rparr>
               = (evs, Inr st') \<and> best_val_loss st' = 2)
   \<and> model_init (adjust_out_dir default_config) Map.empty = ([], Inr (0, 1000000000))"
proof -
  let ?evs = "[MakeDirs ''/checkpoints/out'',
       SetLR (6 / 10000), EstimateLoss 0, Backward 0 0 4, Unscale, ClipGradNorm 1,
       OptimizerStep 0, LogIter 0 4,
       SetLR (6 / 10000), EstimateLoss 1,
       SaveCheckpoint ''/checkpoints/out/ckpt.pt'' \<lparr>ck_iter_num = 1, ck_best_val_loss = 2.4\<rparr>,
       Backward 1 0 4, Unscale, ClipGradNorm 1, OptimizerStep 1, LogIter 1 4]"
  let ?st = "\<lparr>iter_num = 2, local_iter_num = 2, best_val_loss = 2.4, loss = Some 4\<rparr>"
  let ?evs' = "[MakeDirs ''/checkpoints/out'',
       SetLR (6 / 10000), EstimateLoss 0, Backward 0 0 4, Unscale, ClipGradNorm 1,
       OptimizerStep 0, LogIter 0 4,
       SetLR (6 / 10000), EstimateLoss 1,
       SaveCheckpoint ''/checkpoints/out/ckpt.pt'' \<lparr>ck_iter_num = 1, ck_best_val_loss = 3\<rparr>,
       Backward 1 0 4, Unscale, ClipGradNorm 1, OptimizerStep 1, LogIter 1 4]"
  let ?st' = "\<lparr>iter_num = 2, local_iter_num = 2, best_val_loss = 3, loss = Some 4\<rparr>"
  have mi: "model_init (adjust_out_dir short_config) Map.empty = ([], Inr (0, 1000000000))"
    "model_init (adjust_out_dir (short_config\<lparr>always_save_checkpoint := True\<rparr>)) Map.empty
       = ([], Inr (0, 1000000000))"
    by (simp_all add: model_init_def adjust_out_dir_fields short_config_def default_config_def)
  have fl: "\<not> always_save_checkpoint short_config"
    "always_save_checkpoint (short_config\<lparr>always_save_checkpoint := True\<rparr>)"
    by (simp_all add: short_config_def)
  have el: "eval_losses sample_observations ?evs = [2.5, 2.4]"
    "eval_losses rising_observations ?evs' = [2, 3]"
    by (simp_all add: sample_observations_def rising_observations_def)
  have a: "best_val_loss ?st = Min (set (1000000000 # eval_losses sample_observations ?evs))"
    using best_val_loss_update[where config = short_config and env = no_env
        and files = Map.empty and orc = sample_observations and ?evs3.0 = ?evs
        and ?st3.0 = ?st and ?ev0.0 = "[]" and ?it0.0 = 0 and ?b0.0 = 1000000000,
        THEN conjunct2, THEN conjunct2, THEN conjunct2, THEN conjunct1]
      short_run mi(1) fl(1)
    by blast
  have b: "best_val_loss ?st' = last (1000000000 # eval_losses rising_observations ?evs')"
    using best_val_loss_update[where config = "short_config\<lparr>always_save_checkpoint := True\<rparr>"
        and env = no_env and files = Map.empty and orc = rising_observations
        and ?evs3.0 = ?evs' and ?st3.0 = ?st' and ?ev0.0 = "[]" and ?it0.0 = 0
        and ?b0.0 = 1000000000,
        THEN conjunct2, THEN conjunct2, THEN conjunct2, THEN conjunct1]
      short_run_always mi(2) fl(2)
    by blast
  have c: "\<exists>evs st'. eval_step (default_config\<lparr>always_save_checkpoint := False\<rparr>)
                 (single_process default_config) sample_observations
                 \<lparr>iter_num = 2000, local_iter_num = 2000, best_val_loss = 2, loss = None\<rparr>
               = (evs, Inr st') \<and> best_val_loss st' = 2"
    using best_val_loss_update[where config = "default_config\<lparr>always_save_checkpoint := False\<rparr>"
        and pr = "single_process default_config" and orc = sample_observations
        and st = "\<lparr>iter_num = 2000, local_iter_num = 2000, best_val_loss = 2, loss = None\<rparr>",
        THEN conjunct1]
    by (simp add: default_config_def single_process_def sample_observations_def)
  have d: "model_init (adjust_out_dir default_config) Map.empty = ([], Inr (0, 1000000000))"
    using best_val_loss_update[where config = default_config and files = Map.empty,
        THEN conjunct2, THEN conjunct2, THEN conjunct2, THEN conjunct2, THEN conjunct1]
    by (simp add: default_config_def)
  have r1: "\<exists>evs st'. train short_config no_env Map.empty sample_observations = (evs, Inr st')
       \<and> eval_losses sample_observations evs = [2.5, 2.4]
       \<and> best_val_loss st' = Min (set [1000000000, 2.5, 2.4])
       \<and> best_val_loss st' = 2.4"
    using short_run el(1) a by (intro exI[of _ ?evs] exI[of _ ?st]) simp
  have r2: "\<exists>evs st'. train (short_config\<lparr>always_save_checkpoint := True\<rparr>) no_env Map.empty
                   rising_observations = (evs, Inr st')
       \<and> eval_losses rising_observations evs = [2, 3]
       \<and> best_val_loss st' = last [1000000000, 2, 3]
       \<and> best_val_loss st' = 3"
    using short_run_always el(2) b by (intro exI[of _ ?evs'] exI[of _ ?st']) simp
  show ?thesis
    using r1 r2 c d by blast
qed

end
